theory Spec2Isabelle
  imports Complex_Main "HOL-Library.Sublist"
begin

section \<open>Python strings\<close>

text \<open>
  Python \<open>str\<close> values are modelled as HOL strings, a character being a code point
  below 256. \<open>lower\<close> is \<open>str.lower()\<close> on such text: the capital letters, which are
  A to Z and the code points 0xC0 to 0xDE other than the multiplication sign 0xD7, are
  moved up by 32 and every other character is kept. \<open>str_in sub s\<close> is the Python test
  \<open>sub in s\<close>: \<open>sub\<close> occurs in \<open>s\<close> as a contiguous run of characters.
\<close>

definition capital :: "char \<Rightarrow> bool" where
  "capital c =
     (let n = (of_char c :: nat) in
      (65 \<le> n \<and> n \<le> 90) \<or> (192 \<le> n \<and> n \<le> 222 \<and> n \<noteq> 215))"

definition lower_char :: "char \<Rightarrow> char" where
  "lower_char c = (if capital c then char_of ((of_char c :: nat) + 32) else c)"

definition lower :: "string \<Rightarrow> string" where
  "lower s = map lower_char s"

definition str_in :: "string \<Rightarrow> string \<Rightarrow> bool" where
  "str_in sub s = sublist sub s"

text \<open>\<open>str(n)\<close> for a natural number and for an integer.\<close>

definition digit_char :: "nat \<Rightarrow> char" where
  "digit_char d = char_of (48 + d)"

fun str_nat :: "nat \<Rightarrow> string" where
  "str_nat n = (if n < 10 then [digit_char n] else str_nat (n div 10) @ [digit_char (n mod 10)])"

definition str_int :: "int \<Rightarrow> string" where
  "str_int i = (if i < 0 then CHR ''-'' # str_nat (nat (- i)) else str_nat (nat i))"

section \<open>update-time-estimates.py\<close>

subsection \<open>Keyword categorisation (lines 35 to 59)\<close>

record task =
  key :: string
  summary :: string

definition simple_keywords :: "string list" where
  "simple_keywords =
     [''configuration'', ''basic'', ''simple'', ''flag'', ''status'', ''getter'', ''setter'',
      ''validation'']"

definition complex_keywords :: "string list" where
  "complex_keywords =
     [''protocol'', ''security'', ''encryption'', ''parser'', ''handler'', ''manager'',
      ''system'', ''integration'']"

definition very_complex_keywords :: "string list" where
  "very_complex_keywords =
     [''tls'', ''ssl'', ''authentication'', ''registration'', ''audio'', ''codec'',
      ''streaming'']"

text \<open>\<open>any(keyword in summary for keyword in keywords)\<close>\<close>

definition any_keyword :: "string list \<Rightarrow> string \<Rightarrow> bool" where
  "any_keyword keywords s = list_ex (\<lambda>keyword. str_in keyword s) keywords"

record categories =
  simple_tasks :: "task list"
  medium_tasks :: "task list"
  complex_tasks :: "task list"
  very_complex_tasks :: "task list"

definition no_tasks :: categories where
  "no_tasks = \<lparr>simple_tasks = [], medium_tasks = [], complex_tasks = [],
     very_complex_tasks = []\<rparr>"

text \<open>The body of the first loop over \<open>todo_tasks\<close>: the task is appended to one list.\<close>

definition categorize_task :: "categories \<Rightarrow> task \<Rightarrow> categories" where
  "categorize_task c t =
     (let s = lower (summary t) in
      if any_keyword very_complex_keywords s
        then c\<lparr>very_complex_tasks := very_complex_tasks c @ [t]\<rparr>
      else if any_keyword complex_keywords s
        then c\<lparr>complex_tasks := complex_tasks c @ [t]\<rparr>
      else if any_keyword simple_keywords s
        then c\<lparr>simple_tasks := simple_tasks c @ [t]\<rparr>
      else c\<lparr>medium_tasks := medium_tasks c @ [t]\<rparr>)"

definition categorize :: "task list \<Rightarrow> categories" where
  "categorize todo_tasks = foldl categorize_task no_tasks todo_tasks"

subsection \<open>Hour allocations (lines 67 to 83 and 112 to 115)\<close>

text \<open>
  The script computes with Python floats. The model computes with exact rationals;
  \<open>py_round1 x\<close> is \<open>round(x, 1)\<close> of the exact value: the nearest multiple of one
  tenth, a tie going to the even tenth. A float product that the script rounds lies
  within a few units in the last place of the exact product, so the two roundings give
  the same tenth unless the exact product is a tie or next to one; what is proved below
  about particular hours is proved at inputs away from ties.
\<close>

definition py_round1 :: "rat \<Rightarrow> rat" where
  "py_round1 x =
     (let y = x * 10; f = \<lfloor>y\<rfloor>; d = y - of_int f in
      of_int (if d < 1 / 2 then f else if 1 / 2 < d then f + 1
              else if even f then f else f + 1) / 10)"

definition estimated_total :: "categories \<Rightarrow> rat" where
  "estimated_total c =
     of_nat (length (simple_tasks c)) * (3 / 2) + of_nat (length (medium_tasks c)) * (5 / 2)
     + of_nat (length (complex_tasks c)) * (7 / 2)
     + of_nat (length (very_complex_tasks c)) * (9 / 2)"

definition scaling_factor :: "categories \<Rightarrow> rat" where
  "scaling_factor c = (if estimated_total c > 0 then 120 / estimated_total c else 1)"

record hours =
  simple_hours :: rat
  medium_hours :: rat
  complex_hours :: rat
  very_complex_hours :: rat

definition hour_allocations :: "categories \<Rightarrow> hours" where
  "hour_allocations c =
     \<lparr>simple_hours = py_round1 (3 / 2 * scaling_factor c),
      medium_hours = py_round1 (5 / 2 * scaling_factor c),
      complex_hours = py_round1 (7 / 2 * scaling_factor c),
      very_complex_hours = py_round1 (9 / 2 * scaling_factor c)\<rparr>"

definition total_hours :: "categories \<Rightarrow> hours \<Rightarrow> rat" where
  "total_hours c h =
     of_nat (length (simple_tasks c)) * simple_hours h
     + of_nat (length (medium_tasks c)) * medium_hours h
     + of_nat (length (complex_tasks c)) * complex_hours h
     + of_nat (length (very_complex_tasks c)) * very_complex_hours h"

subsection \<open>The update loop (lines 119 to 157)\<close>

text \<open>The second keyword pass, which picks the hours written to a task.\<close>

definition determine_hours :: "hours \<Rightarrow> task \<Rightarrow> rat" where
  "determine_hours h t =
     (let s = lower (summary t) in
      if any_keyword very_complex_keywords s then very_complex_hours h
      else if any_keyword complex_keywords s then complex_hours h
      else if any_keyword simple_keywords s then simple_hours h
      else medium_hours h)"

subsection \<open>The four tiers as the specification words them\<close>

datatype tier = Very_complex | Complex | Simple | Medium

text \<open>A keyword occurs in a text as a case-insensitive substring.\<close>

definition occurs_ci :: "string \<Rightarrow> string \<Rightarrow> bool" where
  "occurs_ci keyword text = str_in (lower keyword) (lower text)"

definition tier_spec :: "string \<Rightarrow> tier" where
  "tier_spec s =
     (if list_ex (\<lambda>k. occurs_ci k s) very_complex_keywords then Very_complex
      else if list_ex (\<lambda>k. occurs_ci k s) complex_keywords then Complex
      else if list_ex (\<lambda>k. occurs_ci k s) simple_keywords then Simple
      else Medium)"

definition in_tier :: "tier \<Rightarrow> task list \<Rightarrow> task list" where
  "in_tier r ts = filter (\<lambda>t. tier_spec (summary t) = r) ts"

definition tier_list :: "tier \<Rightarrow> categories \<Rightarrow> task list" where
  "tier_list r c =
     (case r of Very_complex \<Rightarrow> very_complex_tasks c | Complex \<Rightarrow> complex_tasks c
      | Simple \<Rightarrow> simple_tasks c | Medium \<Rightarrow> medium_tasks c)"

definition tier_hours :: "tier \<Rightarrow> hours \<Rightarrow> rat" where
  "tier_hours r h =
     (case r of Very_complex \<Rightarrow> very_complex_hours h | Complex \<Rightarrow> complex_hours h
      | Simple \<Rightarrow> simple_hours h | Medium \<Rightarrow> medium_hours h)"

subsection \<open>Example task lists\<close>

definition four_tasks :: "task list" where
  "four_tasks =
     [\<lparr>key = ''RDP-1'', summary = ''Add TLS support to the protocol handler''\<rparr>,
      \<lparr>key = ''RDP-2'', summary = ''Implement Message Parser''\<rparr>,
      \<lparr>key = ''RDP-3'', summary = ''Add status flag''\<rparr>,
      \<lparr>key = ''RDP-4'', summary = ''Write the bootloader''\<rparr>]"

definition seventeen_tasks :: "task list" where
  "seventeen_tasks =
     map (\<lambda>n. \<lparr>key = ''RDP-'' @ str_nat n, summary = ''Add status flag''\<rparr>) [1..<18]"

subsection \<open>The script as a whole\<close>

text \<open>
  The issue tracker is the environment: \<open>search J jql\<close> is the status code of the search
  request and the issues of its body, \<open>put_estimate J key hours\<close> the status code of the
  request that writes \<open>originalEstimate = {hours}h\<close> to the issue. A run is the list of
  the requests sent and of the lines printed about a request, with the way the script
  ends. The lines that report no request (the breakdown, the examples) are left out.
\<close>

record jira =
  search :: "string \<Rightarrow> nat \<times> task list"
  put_estimate :: "string \<Rightarrow> rat \<Rightarrow> nat"

datatype outcome = Completed | Exited nat

datatype line =
    Error_fetching_tasks nat
  | Estimate_written string rat
  | Estimate_failed string nat
  | Updated_count nat nat
  | Update_complete

datatype action = Search string | Put_estimate string rat | Print line

text \<open>The estimates written by a run, in order: issue key and hours.\<close>

definition puts :: "action list \<Rightarrow> (string \<times> rat) list" where
  "puts acts = concat (map (\<lambda>a. case a of Put_estimate k x \<Rightarrow> [(k, x)] | _ \<Rightarrow> []) acts)"

definition jql_todo :: string where
  "jql_todo = ''project=RDP AND status='' @ [CHR 0x22] @ ''To Do'' @ [CHR 0x22]
     @ '' AND type=Sub-task ORDER BY key''"

definition jql_test :: string where
  "jql_test = ''project=RDP AND status='' @ [CHR 0x22] @ ''Acceptance Test'' @ [CHR 0x22]
     @ '' AND type=Sub-task ORDER BY key''"

text \<open>
  The loop that writes the estimates; the loop over the test tasks (lines 183 to 203) has
  the same body with one value of hours for every task.
\<close>

fun update_tasks :: "jira \<Rightarrow> (task \<Rightarrow> rat) \<Rightarrow> task list \<Rightarrow> nat \<Rightarrow> action list \<times> nat" where
  "update_tasks J hours_of [] success_count = ([], success_count)"
| "update_tasks J hours_of (t # ts) success_count =
     (let hours = hours_of t;
          status_code = put_estimate J (key t) hours;
          rest = update_tasks J hours_of ts
                   (if status_code = 204 then success_count + 1 else success_count)
      in (Put_estimate (key t) hours
            # Print (if status_code = 204 then Estimate_written (key t) hours
                     else Estimate_failed (key t) status_code)
            # fst rest,
          snd rest))"

definition update_test_tasks :: "jira \<Rightarrow> action list" where
  "update_test_tasks J =
     (let response = search J jql_test in
      Search jql_test #
      (if fst response = 200 then
         (let test_tasks = snd response;
              test_hours_per_task =
                (if length test_tasks > 0 then py_round1 (20 / of_nat (length test_tasks))
                 else 0);
              updated = update_tasks J (\<lambda>t. test_hours_per_task) test_tasks 0
          in fst updated @ [Print (Updated_count (snd updated) (length test_tasks))])
       else []))"

definition update_time_estimates :: "jira \<Rightarrow> action list \<times> outcome" where
  "update_time_estimates J =
     (let response = search J jql_todo in
      if fst response \<noteq> 200
        then ([Search jql_todo, Print (Error_fetching_tasks (fst response))], Exited 1)
      else
        (let todo_tasks = snd response;
             c = categorize todo_tasks;
             h = hour_allocations c;
             updated = update_tasks J (determine_hours h) todo_tasks 0
         in (Search jql_todo # fst updated
               @ [Print (Updated_count (snd updated) (length todo_tasks))]
               @ update_test_tasks J @ [Print Update_complete],
             Completed)))"

subsection \<open>Example trackers\<close>

text \<open>A tracker that answers the search for the To Do sub-tasks with status 500.\<close>

definition jira_search_fails :: jira where
  "jira_search_fails = \<lparr>search = (\<lambda>jql. (500, [])), put_estimate = (\<lambda>k h. 500)\<rparr>"

definition two_test_tasks :: "task list" where
  "two_test_tasks =
     [\<lparr>key = ''RDP-8'', summary = ''Test audio playback with CLI commands''\<rparr>,
      \<lparr>key = ''RDP-9'', summary = ''Monitor charging state''\<rparr>]"

text \<open>
  A tracker that returns \<open>four_tasks\<close> as the To Do sub-tasks and \<open>two_test_tasks\<close> as
  the test tasks, and refuses every estimate with status 403.
\<close>

definition jira_rejects_estimates :: jira where
  "jira_rejects_estimates =
     \<lparr>search = (\<lambda>jql. if jql = jql_todo then (200, four_tasks) else (200, two_test_tasks)),
      put_estimate = (\<lambda>k h. 403)\<rparr>"

text \<open>
  A tracker that returns \<open>four_tasks\<close> as the To Do sub-tasks, accepts every estimate and
  answers the search for the test tasks with status 500.
\<close>

definition jira_test_search_fails :: jira where
  "jira_test_search_fails =
     \<lparr>search = (\<lambda>jql. if jql = jql_todo then (200, four_tasks) else (500, [])),
      put_estimate = (\<lambda>k h. 204)\<rparr>"

section \<open>script/generate\_updates.py\<close>

subsection \<open>The VERSION file (lines 28 to 35)\<close>

datatype py_error = ValueError | KeyError string

text \<open>
  The characters that \<open>str.strip()\<close> removes from both ends of a string: the code points
  below 256 for which \<open>str.isspace()\<close> holds, which are 9 to 13, 28 to 32, the next-line
  character 0x85 and the no-break space 0xA0.
\<close>

definition is_space :: "char \<Rightarrow> bool" where
  "is_space c =
     (let n = (of_char c :: nat) in
      (9 \<le> n \<and> n \<le> 13) \<or> (28 \<le> n \<and> n \<le> 32) \<or> n = 0x85 \<or> n = 0xA0)"

definition strip :: "string \<Rightarrow> string" where
  "strip s = rev (dropWhile is_space (rev (dropWhile is_space s)))"

text \<open>\<open>s.split(sep)\<close> for a separator of one character.\<close>

fun split :: "char \<Rightarrow> string \<Rightarrow> string list" where
  "split sep [] = [[]]"
| "split sep (c # s) =
     (if c = sep then [] # split sep s
      else (case split sep s of [] \<Rightarrow> [[c]] | p # ps \<Rightarrow> (c # p) # ps))"

text \<open>
  The loop over the lines of the file. \<open>key, val = line.strip().split("=")\<close> raises
  ValueError unless the split has exactly two parts.
\<close>

fun parse_version :: "string list \<Rightarrow> (string \<rightharpoonup> string) \<Rightarrow> py_error + (string \<rightharpoonup> string)" where
  "parse_version [] version_vars = Inr version_vars"
| "parse_version (l # ls) version_vars =
     (if str_in ''='' l then
        (case split (CHR ''='') (strip l) of
           [k, v] \<Rightarrow> parse_version ls (version_vars(strip k \<mapsto> strip v))
         | _ \<Rightarrow> Inl ValueError)
      else parse_version ls version_vars)"

text \<open>\<open>"V{VERSION_MAJOR}.{VERSION_MINOR}.{PATCHLEVEL}".format(**version_vars)\<close>\<close>

definition format_version :: "(string \<rightharpoonup> string) \<Rightarrow> py_error + string" where
  "format_version version_vars =
     (case version_vars ''VERSION_MAJOR'' of
        None \<Rightarrow> Inl (KeyError ''VERSION_MAJOR'')
      | Some major \<Rightarrow>
          (case version_vars ''VERSION_MINOR'' of
             None \<Rightarrow> Inl (KeyError ''VERSION_MINOR'')
           | Some minor \<Rightarrow>
               (case version_vars ''PATCHLEVEL'' of
                  None \<Rightarrow> Inl (KeyError ''PATCHLEVEL'')
                | Some patch \<Rightarrow> Inr (''V'' @ major @ ''.'' @ minor @ ''.'' @ patch))))"

definition read_version :: "string list \<Rightarrow> py_error + string" where
  "read_version ls =
     (case parse_version ls Map.empty of
        Inl e \<Rightarrow> Inl e
      | Inr version_vars \<Rightarrow> format_version version_vars)"

subsection \<open>The board loop (lines 40 to 61)\<close>

text \<open>
  A board directory under \<open>build\<close>, with the contents of the two files the script looks
  for (\<open>None\<close> when the path does not exist). The project is the part of the file system
  the script reads: the subdirectories of \<open>build\<close> when it exists, and the lines of the
  VERSION file when it exists.
\<close>

type_synonym bytes = "nat list"

record board_dir =
  board_name :: string
  rapid_fw_zephyr :: "bytes option"
  zephyr_bin :: "bytes option"

record project =
  build_dir :: "board_dir list option"
  version_file :: "string list option"

datatype failure = Exit nat | Raised py_error

definition target_filename :: "string \<Rightarrow> string \<Rightarrow> string" where
  "target_filename name version = name @ ''_rapidreach-fw_'' @ version @ ''.bin''"

text \<open>The copies made into \<open>firmware_updates\<close>, in order: file name and contents.\<close>

fun copy_boards :: "string \<Rightarrow> board_dir list \<Rightarrow> (string \<times> bytes) list" where
  "copy_boards version [] = []"
| "copy_boards version (b # boards) =
     (case rapid_fw_zephyr b of
        Some bin \<Rightarrow> (target_filename (board_name b) version, bin) # copy_boards version boards
      | None \<Rightarrow>
          (case zephyr_bin b of
             Some bin \<Rightarrow>
               (target_filename (board_name b) version, bin) # copy_boards version boards
           | None \<Rightarrow> copy_boards version boards))"

definition generate_updates :: "project \<Rightarrow> failure + (string \<times> bytes) list" where
  "generate_updates p =
     (case build_dir p of
        None \<Rightarrow> Inl (Exit 1)
      | Some boards \<Rightarrow>
          if boards = [] then Inl (Exit 1)
          else
            (case version_file p of
               None \<Rightarrow> Inl (Exit 1)
             | Some ls \<Rightarrow>
                 (case read_version ls of
                    Inl e \<Rightarrow> Inl (Raised e)
                  | Inr version \<Rightarrow> Inr (copy_boards version boards))))"


text \<open>A line with exactly one equals sign.\<close>

definition one_equals :: "string \<Rightarrow> bool" where
  "one_equals l = (count_list l (CHR ''='') = 1)"

subsection \<open>Example projects\<close>

definition version_lines :: "string list" where
  "version_lines =
     [''VERSION_MAJOR = 1'' @ [CHR 0x0A], ''VERSION_MINOR = 2'' @ [CHR 0x0A],
      ''PATCHLEVEL = 3'' @ [CHR 0x0A], ''VERSION_TWEAK = 0'' @ [CHR 0x0A]]"

definition version_lines_two_equals :: "string list" where
  "version_lines_two_equals = version_lines @ [''EXTRAVERSION = a=b'' @ [CHR 0x0A]]"

definition example_boards :: "board_dir list" where
  "example_boards =
     [\<lparr>board_name = ''speaker'', rapid_fw_zephyr = Some [1, 2, 3], zephyr_bin = Some [9]\<rparr>,
      \<lparr>board_name = ''nrf52'', rapid_fw_zephyr = None, zephyr_bin = Some [4, 5]\<rparr>,
      \<lparr>board_name = ''native'', rapid_fw_zephyr = None, zephyr_bin = None\<rparr>]"



definition project_two_equals :: project where
  "project_two_equals =
     \<lparr>build_dir = Some example_boards, version_file = Some version_lines_two_equals\<rparr>"

section \<open>acceptance-test-runner.py\<close>

subsection \<open>Test definitions\<close>

record test_info =
  name :: string
  commands :: "string list"
  expected :: "string list"
  time_minutes :: nat

text \<open>The dictionary \<open>TEST_CASES\<close>, in the order of its entries.\<close>

definition TEST_CASES :: "(string \<times> test_info) list" where
  "TEST_CASES =
    [(''RDP-179'',
      \<lparr>name = ''Test audio playback with CLI commands'',
       commands = [''rapidreach audio play /path/to/test.wav'',
                   ''rapidreach audio status''],
       expected = [''Playing'',
                   ''Status:''],
       time_minutes = 5\<rparr>),
     (''RDP-180'',
      \<lparr>name = ''Test volume control (0-100 range)'',
       commands = [''rapidreach audio volume 0'',
                   ''rapidreach audio volume 50'',
                   ''rapidreach audio volume 100'',
                   ''rapidreach audio volume''],
       expected = [''Volume set to'',
                   ''Current volume:''],
       time_minutes = 3\<rparr>),
     (''RDP-181'',
      \<lparr>name = ''Test mute/unmute functionality'',
       commands = [''rapidreach audio mute'',
                   ''rapidreach audio status'',
                   ''rapidreach audio unmute'',
                   ''rapidreach audio status''],
       expected = [''Muted'',
                   ''Unmuted''],
       time_minutes = 3\<rparr>),
     (''RDP-186'',
      \<lparr>name = ''Check battery status via CLI'',
       commands = [''rapidreach power battery'',
                   ''rapidreach power status''],
       expected = [''Battery:'',
                   ''Level:'',
                   ''%''],
       time_minutes = 2\<rparr>),
     (''RDP-187'',
      \<lparr>name = ''Monitor charging state'',
       commands = [''rapidreach power charging''],
       expected = [''Charging:'',
                   ''Status:''],
       time_minutes = 2\<rparr>),
     (''RDP-193'',
      \<lparr>name = ''Test WiFi connection and status'',
       commands = [''rapidreach network wifi status'',
                   ''rapidreach network wifi scan''],
       expected = [''WiFi'',
                   ''Status:'',
                   ''SSID:''],
       time_minutes = 3\<rparr>),
     (''RDP-194'',
      \<lparr>name = ''Test Ethernet connectivity'',
       commands = [''rapidreach network ethernet status''],
       expected = [''Ethernet'',
                   ''Status:'',
                   ''IP:''],
       time_minutes = 2\<rparr>),
     (''RDP-195'',
      \<lparr>name = ''Test LTE modem connection'',
       commands = [''rapidreach network lte status'',
                   ''rapidreach network lte signal''],
       expected = [''LTE'',
                   ''Status:'',
                   ''Signal:''],
       time_minutes = 3\<rparr>),
     (''RDP-200'',
      \<lparr>name = ''Test all LED colors and patterns'',
       commands = [''rapidreach led red on'',
                   ''rapidreach led green on'',
                   ''rapidreach led blue on'',
                   ''rapidreach led all off'',
                   ''rapidreach led red blink'',
                   ''rapidreach led status''],
       expected = [''LED'',
                   ''on'',
                   ''off'',
                   ''blink''],
       time_minutes = 4\<rparr>),
     (''RDP-201'',
      \<lparr>name = ''Test switch/button detection'',
       commands = [''rapidreach gpio read button1'',
                   ''rapidreach gpio status''],
       expected = [''GPIO'',
                   ''State:'',
                   ''Level:''],
       time_minutes = 3\<rparr>),
     (''RDP-207'',
      \<lparr>name = ''Check system uptime'',
       commands = [''rapidreach system uptime''],
       expected = [''Uptime:'',
                   ''seconds'',
                   ''minutes''],
       time_minutes = 1\<rparr>),
     (''RDP-208'',
      \<lparr>name = ''Monitor CPU usage'',
       commands = [''rapidreach system cpu''],
       expected = [''CPU:'',
                   ''Usage:'',
                   ''%''],
       time_minutes = 2\<rparr>),
     (''RDP-209'',
      \<lparr>name = ''Check memory usage'',
       commands = [''rapidreach system memory''],
       expected = [''Memory:'',
                   ''Used:'',
                   ''Free:'',
                   ''KB''],
       time_minutes = 2\<rparr>),
     (''RDP-210'',
      \<lparr>name = ''Test shell commands execution'',
       commands = [''help'',
                   ''version'',
                   ''rapidreach test''],
       expected = [''Available commands:'',
                   ''Version:'',
                   ''Hello''],
       time_minutes = 2\<rparr>),
     (''RDP-221'',
      \<lparr>name = ''Test MQTT connection'',
       commands = [''rapidreach mqtt status''],
       expected = [''MQTT'',
                   ''Connected'',
                   ''Broker:''],
       time_minutes = 2\<rparr>),
     (''RDP-222'',
      \<lparr>name = ''Test MQTT publish functionality'',
       commands = [(''rapidreach mqtt publish test/topic '' @ [CHR 0x22] @ ''Test message'' @ [CHR 0x22])],
       expected = [''Published'',
                   ''Success''],
       time_minutes = 2\<rparr>),
     (''RDP-223'',
      \<lparr>name = ''Test MQTT heartbeat'',
       commands = [''rapidreach mqtt heartbeat status''],
       expected = [''Heartbeat'',
                   ''Active'',
                   ''Interval:''],
       time_minutes = 2\<rparr>)]"

subsection \<open>Running one test case (lines 233 to 291)\<close>

text \<open>\<open>'\n'.join(responses)\<close>\<close>

fun join_lines :: "string list \<Rightarrow> string" where
  "join_lines [] = []"
| "join_lines [r] = r"
| "join_lines (r # r' # rs) = r @ [CHR 0x0A] @ join_lines (r' # rs)"

text \<open>
  \<open>send_command\<close> empties \<open>self.responses\<close>, publishes the command, sleeps for one second
  and joins what \<open>on_message\<close> has appended meanwhile. Its argument here is that list: the
  messages decoded during the wait window of the command.
\<close>

definition send_command :: "string list \<Rightarrow> string" where
  "send_command responses = join_lines responses"

text \<open>The inner loop over the expected strings, with its \<open>break\<close>.\<close>

fun found_expected :: "string list \<Rightarrow> string \<Rightarrow> bool" where
  "found_expected [] response = False"
| "found_expected (e # es) response =
     (if str_in (lower e) (lower response) then True else found_expected es response)"

record test_state =
  test_passed :: bool
  results :: "(string \<times> string) list"

text \<open>
  The loop over the commands of a test case; \<open>window i\<close> is the list of messages that
  arrive in the wait window of the command at position \<open>i\<close>.
\<close>

fun run_commands :: "string list \<Rightarrow> (nat \<Rightarrow> string list) \<Rightarrow> nat \<Rightarrow> string list \<Rightarrow> test_state \<Rightarrow> test_state" where
  "run_commands es window i [] st = st"
| "run_commands es window i (command # rest) st =
     (let response = send_command (window i) in
      run_commands es window (Suc i) rest
        \<lparr>test_passed =
           (if response \<noteq> [] then
              (if \<not> found_expected es response \<and> es \<noteq> [] then False else test_passed st)
            else False),
         results = results st @ [(command, response)]\<rparr>)"

record test_result =
  passed :: bool
  elapsed_minutes :: rat
  estimated_minutes :: nat
  command_results :: "(string \<times> string) list"

text \<open>
  \<open>run_test_case\<close> returns \<open>passed\<close> and stores the whole record under the test id;
  \<open>elapsed_time\<close> is the difference of the two readings of \<open>time.time()\<close>, in seconds.
\<close>

definition run_test_case :: "test_info \<Rightarrow> (nat \<Rightarrow> string list) \<Rightarrow> rat \<Rightarrow> test_result" where
  "run_test_case info window elapsed_time =
     (let st = run_commands (expected info) window 0 (commands info)
                 \<lparr>test_passed = True, results = []\<rparr>
      in \<lparr>passed = test_passed st, elapsed_minutes = elapsed_time / 60,
          estimated_minutes = time_minutes info, command_results = results st\<rparr>)"

subsection \<open>Response text and matching as the specification words them\<close>

text \<open>
  The response text of a wait window: every message that arrived in it, in order of
  arrival, each after the first on a line of its own.
\<close>

definition response_text :: "string list \<Rightarrow> string" where
  "response_text msgs =
     (case msgs of [] \<Rightarrow> [] | m # ms \<Rightarrow> m @ concat (map (\<lambda>x. CHR 0x0A # x) ms))"

text \<open>
  Two characters are the same letter when they are equal or one is a capital letter and
  the other the small letter that belongs to it, 32 code points above. A token occurs in
  a text as a case-insensitive substring when, at some position of the text, every
  character of the token meets the same letter.
\<close>

definition same_letter :: "char \<Rightarrow> char \<Rightarrow> bool" where
  "same_letter a b =
     (a = b \<or> (capital a \<and> (of_char b :: nat) = of_char a + 32)
      \<or> (capital b \<and> (of_char a :: nat) = of_char b + 32))"

fun starts_with_ci :: "string \<Rightarrow> string \<Rightarrow> bool" where
  "starts_with_ci s [] = True"
| "starts_with_ci [] (a # token) = False"
| "starts_with_ci (b # s) (a # token) = (same_letter a b \<and> starts_with_ci s token)"

fun ci_substring :: "string \<Rightarrow> string \<Rightarrow> bool" where
  "ci_substring token [] = (token = [])"
| "ci_substring token (c # s) = (starts_with_ci (c # s) token \<or> ci_substring token s)"

subsection \<open>Updating the issue tracker (lines 293 to 352)\<close>

text \<open>
  A request either raises an exception, which the \<open>except\<close> clause of \<open>update_jira_task\<close>
  catches, or returns a response with a status code and a body.
\<close>

datatype 'a reply = Raises | Response nat 'a

record transition =
  transition_name :: string
  transition_id :: string

record worklog =
  timeSpent :: string
  comment :: string
  started :: string

record tracker =
  post_worklog :: "string \<Rightarrow> worklog \<Rightarrow> unit reply"
  get_transitions :: "string \<Rightarrow> transition list reply"
  post_transition :: "string \<Rightarrow> string \<Rightarrow> unit reply"

datatype report =
    Logged rat string
  | Failed_to_log nat
  | Moved_to_done string
  | Failed_to_transition nat
  | Done_not_found
  | Error_updating

datatype effect =
    Post_worklog string worklog
  | Get_transitions string
  | Post_transition string string
  | Printed report

text \<open>\<open>int(x)\<close> of a Python float: the fraction is cut off.\<close>

definition int_trunc :: "rat \<Rightarrow> int" where
  "int_trunc x = (if x < 0 then \<lceil>x\<rceil> else \<lfloor>x\<rfloor>)"

text \<open>The loop that looks for the transition named done, with its \<open>break\<close>.\<close>

fun find_done :: "transition list \<Rightarrow> string option" where
  "find_done [] = None"
| "find_done (t # ts) =
     (if lower (transition_name t) = ''done'' then Some (transition_id t) else find_done ts)"

definition move_to_done :: "tracker \<Rightarrow> string \<Rightarrow> effect list" where
  "move_to_done J test_id =
     Get_transitions test_id #
     (case get_transitions J test_id of
        Raises \<Rightarrow> [Printed Error_updating]
      | Response status_code transitions \<Rightarrow>
          if status_code = 200 then
            (case find_done transitions of
               None \<Rightarrow> [Printed Done_not_found]
             | Some done_transition \<Rightarrow>
                 if done_transition \<noteq> [] then
                   Post_transition test_id done_transition #
                   (case post_transition J test_id done_transition of
                      Raises \<Rightarrow> [Printed Error_updating]
                    | Response s u \<Rightarrow>
                        [Printed (if s = 204 then Moved_to_done test_id
                                  else Failed_to_transition s)])
                 else [Printed Done_not_found])
          else [])"

text \<open>
  The dictionary \<open>worklog_data\<close>; \<open>now\<close> is \<open>datetime.now()\<close> in the format of the
  \<open>started\<close> field.
\<close>

definition worklog_data :: "string \<Rightarrow> bool \<Rightarrow> rat \<Rightarrow> worklog" where
  "worklog_data now test_ok minutes =
     \<lparr>timeSpent = str_int (int_trunc minutes) @ ''m'',
      comment = ''Automated test '' @ (if test_ok then ''passed'' else ''failed'')
                  @ '' via MQTT CLI interface'',
      started = now\<rparr>"

definition update_jira_task :: "tracker \<Rightarrow> string \<Rightarrow> string \<Rightarrow> bool \<Rightarrow> rat \<Rightarrow> effect list" where
  "update_jira_task J now test_id test_ok minutes =
     Post_worklog test_id (worklog_data now test_ok minutes) #
     (case post_worklog J test_id (worklog_data now test_ok minutes) of
        Raises \<Rightarrow> [Printed Error_updating]
      | Response status_code u \<Rightarrow>
          Printed (if status_code = 200 \<or> status_code = 201 then Logged minutes test_id
                   else Failed_to_log status_code)
          # (if test_ok then move_to_done J test_id else []))"

text \<open>The work logged by a run, in order: issue key and worklog.\<close>

definition worklogs :: "effect list \<Rightarrow> (string \<times> worklog) list" where
  "worklogs es = concat (map (\<lambda>e. case e of Post_worklog k w \<Rightarrow> [(k, w)] | _ \<Rightarrow> []) es)"

subsection \<open>Running all tests (lines 354 to 415)\<close>

text \<open>
  The test bench is the environment of a run: whether the MQTT connection is set up,
  the messages that arrive in the wait window of each command of each test, the seconds
  measured for each test, the clock, and the issue tracker.
\<close>

record bench =
  mqtt_connects :: bool
  window_of :: "string \<Rightarrow> nat \<Rightarrow> string list"
  elapsed_time_of :: "string \<Rightarrow> rat"
  clock :: "string \<Rightarrow> string"
  tracker_of :: tracker

text \<open>
  The loop over \<open>TEST_CASES\<close>. \<open>run_test_case\<close> is modelled as returning and
  \<open>update_jira_task\<close> catches what its requests raise, so the \<open>except\<close> clause of the
  loop is not a branch here.
\<close>

record totals =
  passed_count :: nat
  failed_count :: nat
  total_time :: rat
  test_results :: "(string \<times> test_result) list"
  effects :: "effect list"

fun run_tests :: "bench \<Rightarrow> (string \<times> test_info) list \<Rightarrow> totals \<Rightarrow> totals" where
  "run_tests B [] T = T"
| "run_tests B ((test_id, info) # rest) T =
     (let r = run_test_case info (window_of B test_id) (elapsed_time_of B test_id);
          actual_time = elapsed_minutes r
      in run_tests B rest
           \<lparr>passed_count = (if passed r then passed_count T + 1 else passed_count T),
            failed_count = (if passed r then failed_count T else failed_count T + 1),
            total_time = total_time T + actual_time,
            test_results = test_results T @ [(test_id, r)],
            effects = effects T
              @ update_jira_task (tracker_of B) (clock B test_id) test_id (passed r)
                  (max actual_time 1)\<rparr>)"

definition no_totals :: totals where
  "no_totals = \<lparr>passed_count = 0, failed_count = 0, total_time = 0, test_results = [],
     effects = []\<rparr>"

text \<open>\<open>None\<close>: the MQTT connection is not set up and no test is run.\<close>

definition run_all_tests :: "bench \<Rightarrow> totals option" where
  "run_all_tests B = (if \<not> mqtt_connects B then None else Some (run_tests B TEST_CASES no_totals))"

text \<open>The stored result of a test case on a bench.\<close>

definition result_on :: "bench \<Rightarrow> string \<Rightarrow> test_info \<Rightarrow> test_result" where
  "result_on B test_id info =
     run_test_case info (window_of B test_id) (elapsed_time_of B test_id)"

subsection \<open>Example benches\<close>

definition RDP_186 :: test_info where
  "RDP_186 =
     \<lparr>name = ''Check battery status via CLI'',
      commands = [''rapidreach power battery'', ''rapidreach power status''],
      expected = [''Battery:'', ''Level:'', ''%''], time_minutes = 2\<rparr>"

text \<open>
  Wait windows for a test of two commands: two messages for the first command and one
  for the second, the expected strings in other case than the test case has them.
\<close>

definition two_windows :: "nat \<Rightarrow> string list" where
  "two_windows i = (if i = 0 then [''ok'', ''BATTERY: 80''] else [''charge level: high''])"

text \<open>The same, but nothing arrives for the second command.\<close>

definition one_window :: "nat \<Rightarrow> string list" where
  "one_window i = (if i = 0 then [''ok'', ''BATTERY: 80''] else [])"

definition RDP_187 :: test_info where
  "RDP_187 =
     \<lparr>name = ''Monitor charging state'', commands = [''rapidreach power charging''],
      expected = [''Charging:'', ''Status:''], time_minutes = 2\<rparr>"

text \<open>A tracker that accepts every request and offers the transition Done.\<close>

definition accepting_tracker :: tracker where
  "accepting_tracker =
     \<lparr>post_worklog = (\<lambda>k w. Response 201 ()),
      get_transitions =
        (\<lambda>k. Response 200
           [\<lparr>transition_name = ''In Progress'', transition_id = ''21''\<rparr>,
            \<lparr>transition_name = ''Done'', transition_id = ''31''\<rparr>]),
      post_transition = (\<lambda>k i. Response 204 ())\<rparr>"

text \<open>A tracker that cannot be reached: every request raises.\<close>

definition unreachable_tracker :: tracker where
  "unreachable_tracker =
     \<lparr>post_worklog = (\<lambda>k w. Raises), get_transitions = (\<lambda>k. Raises),
      post_transition = (\<lambda>k i. Raises)\<rparr>"

text \<open>A tracker that answers every request with status 500.\<close>

definition failing_tracker :: tracker where
  "failing_tracker =
     \<lparr>post_worklog = (\<lambda>k w. Response 500 ()), get_transitions = (\<lambda>k. Response 500 []),
      post_transition = (\<lambda>k i. Response 500 ())\<rparr>"

text \<open>
  A tracker that logs the work and offers the transition Done, but refuses the
  transition with status 409.
\<close>

definition refusing_tracker :: tracker where
  "refusing_tracker =
     \<lparr>post_worklog = (\<lambda>k w. Response 201 ()),
      get_transitions =
        (\<lambda>k. Response 200 [\<lparr>transition_name = ''Done'', transition_id = ''31''\<rparr>]),
      post_transition = (\<lambda>k i. Response 409 ())\<rparr>"

text \<open>
  A bench on which the device answers every command with one message and every test
  takes 1.2 seconds for each of its commands.
\<close>

definition quick_bench :: "tracker \<Rightarrow> bench" where
  "quick_bench J =
     \<lparr>mqtt_connects = True,
      window_of = (\<lambda>k i. [''Charging: yes, Status: ok'']),
      elapsed_time_of =
        (\<lambda>k. case map_of TEST_CASES k of
               None \<Rightarrow> 0
             | Some info \<Rightarrow> of_nat (length (commands info)) * (6 / 5)),
      clock = (\<lambda>k. ''2025-01-01T00:00:00.000+0000''),
      tracker_of = J\<rparr>"

section \<open>mqtt/scripts/test\_mqtt\_emqx.py\<close>

subsection \<open>JSON\<close>

text \<open>
  The values of the two messages: strings, integers, and floats written as a decimal
  numeral (\<open>JFloat m e\<close> is the float that prints as \<open>m / 10 ^ e\<close> with \<open>e\<close> digits after
  the point). A \<open>dict\<close> keeps its keys in insertion order.
\<close>

datatype json = JString string | JInt int | JFloat int nat

type_synonym dict = "(string \<times> json) list"

text \<open>\<open>d[k] = v\<close>\<close>

fun dict_set :: "dict \<Rightarrow> string \<Rightarrow> json \<Rightarrow> dict" where
  "dict_set [] k v = [(k, v)]"
| "dict_set ((k', v') # d) k v = (if k' = k then (k, v) # d else (k', v') # dict_set d k v)"

definition hex_digit :: "nat \<Rightarrow> char" where
  "hex_digit d = (if d < 10 then char_of (48 + d) else char_of (87 + d))"

text \<open>
  \<open>json.dumps\<close> with its defaults: the separators are \<open>", "\<close> and \<open>": "\<close>, and every
  character outside the range from space to tilde is escaped.
\<close>

definition json_escape_char :: "char \<Rightarrow> string" where
  "json_escape_char c =
     (let n = (of_char c :: nat) in
      if n = 0x22 then [CHR 0x5C, CHR 0x22]
      else if n = 0x5C then [CHR 0x5C, CHR 0x5C]
      else if n = 0x0A then [CHR 0x5C, CHR ''n'']
      else if n = 0x0D then [CHR 0x5C, CHR ''r'']
      else if n = 0x09 then [CHR 0x5C, CHR ''t'']
      else if n = 0x08 then [CHR 0x5C, CHR ''b'']
      else if n = 0x0C then [CHR 0x5C, CHR ''f'']
      else if n < 0x20 \<or> 0x7E < n
        then [CHR 0x5C, CHR ''u'', CHR ''0'', CHR ''0'', hex_digit (n div 16), hex_digit (n mod 16)]
      else [c])"

definition json_string :: "string \<Rightarrow> string" where
  "json_string s = [CHR 0x22] @ concat (map json_escape_char s) @ [CHR 0x22]"

definition str_float :: "int \<Rightarrow> nat \<Rightarrow> string" where
  "str_float m e =
     (let a = nat \<bar>m\<bar>; frac = str_nat (a mod 10 ^ e) in
      (if m < 0 then ''-'' else []) @ str_nat (a div 10 ^ e) @ ''.''
        @ replicate (e - length frac) (CHR ''0'') @ frac)"

fun json_value :: "json \<Rightarrow> string" where
  "json_value (JString s) = json_string s"
| "json_value (JInt i) = str_int i"
| "json_value (JFloat m e) = str_float m e"

fun json_items :: "dict \<Rightarrow> string" where
  "json_items [] = []"
| "json_items [(k, v)] = json_string k @ '': '' @ json_value v"
| "json_items ((k, v) # kv # d) = json_string k @ '': '' @ json_value v @ '', '' @ json_items (kv # d)"

definition json_dumps :: "dict \<Rightarrow> string" where
  "json_dumps d = ''{'' @ json_items d @ ''}''"

subsection \<open>The client (lines 90 to 157)\<close>

definition TOPIC_HEARTBEAT :: string where
  "TOPIC_HEARTBEAT = ''rapidreach/heartbeat''"

definition TOPIC_STATUS :: string where
  "TOPIC_STATUS = ''rapidreach/status''"

datatype test_message = Dict dict | Other string

datatype publish_result = Publish_raises | Rc nat

text \<open>
  \<open>publish_test_message\<close>: \<open>is_connected\<close> is \<open>self.connected\<close>, \<open>timestamp\<close> is
  \<open>datetime.now().isoformat()\<close>, \<open>publish\<close> is \<open>self.client.publish\<close>, and a message that is
  not a dict is given as its \<open>str\<close>. The result is the list of the calls of
  \<open>self.client.publish\<close> (topic and payload) and the value returned.
\<close>

definition publish_test_message :: "bool \<Rightarrow> string \<Rightarrow> (string \<Rightarrow> string \<Rightarrow> publish_result) \<Rightarrow> string \<Rightarrow> test_message \<Rightarrow> (string \<times> string) list \<times> bool" where
  "publish_test_message is_connected timestamp publish topic message =
     (if \<not> is_connected then ([], False)
      else
        (let payload =
               (case message of
                  Dict d \<Rightarrow> json_dumps (dict_set d ''timestamp'' (JString timestamp))
                | Other s \<Rightarrow> s)
         in ([(topic, payload)],
             (case publish topic payload of Publish_raises \<Rightarrow> False | Rc rc \<Rightarrow> rc = 0))))"

definition heartbeat_msg :: dict where
  "heartbeat_msg =
     [(''device_id'', JString ''rapidreach_test''), (''status'', JString ''alive''),
      (''uptime'', JInt 12345), (''memory_free'', JInt 85), (''signal_strength'', JInt (- 67))]"

definition status_msg :: dict where
  "status_msg =
     [(''device_id'', JString ''rapidreach_test''), (''firmware_version'', JString ''1.0.0''),
      (''hardware_version'', JString ''rev_a''), (''temperature'', JFloat 235 1),
      (''battery_level'', JInt 87)]"

text \<open>
  One run of \<open>main\<close>: whether \<open>client.connect()\<close> succeeds, and for each of the two calls
  of \<open>publish_test_message\<close> the value of \<open>self.connected\<close> and the clock reading. The
  result is the list of the calls of \<open>self.client.publish\<close> the run makes.
\<close>

record session =
  connects :: bool
  connected_at :: "nat \<Rightarrow> bool"
  now_at :: "nat \<Rightarrow> string"
  client_publish :: "string \<Rightarrow> string \<Rightarrow> publish_result"

definition main :: "session \<Rightarrow> (string \<times> string) list" where
  "main S =
     (if \<not> connects S then []
      else
        fst (publish_test_message (connected_at S 0) (now_at S 0) (client_publish S)
               TOPIC_HEARTBEAT (Dict heartbeat_msg))
        @ fst (publish_test_message (connected_at S 1) (now_at S 1) (client_publish S)
                 TOPIC_STATUS (Dict status_msg)))"

text \<open>The payloads that a run publishes to a topic.\<close>

definition published_to :: "string \<Rightarrow> (string \<times> string) list \<Rightarrow> string list" where
  "published_to topic calls = map snd (filter (\<lambda>c. fst c = topic) calls)"

text \<open>
  The text of a payload before the value of its timestamp: the opening brace, the items
  of the message as \<open>main\<close> builds it, and the key \<open>timestamp\<close>.
\<close>

definition fixed_part :: "dict \<Rightarrow> string" where
  "fixed_part d = ''{'' @ json_items d @ '', '' @ json_string ''timestamp'' @ '': ''"

subsection \<open>Example runs\<close>

text \<open>A run that connects, stays connected and reads the clock as given.\<close>

definition session_at :: "string \<Rightarrow> string \<Rightarrow> session" where
  "session_at t0 t1 =
     \<lparr>connects = True, connected_at = (\<lambda>i. True),
      now_at = (\<lambda>i. if i = 0 then t0 else t1),
      client_publish = (\<lambda>topic payload. Rc 0)\<rparr>"

definition morning_run :: session where
  "morning_run = session_at ''2025-01-01T09:00:00.000123'' ''2025-01-01T09:00:01.001456''"

definition evening_run :: session where
  "evening_run = session_at ''2025-01-01T21:30:00.000123'' ''2025-01-01T21:30:01.001456''"

section \<open>Properties of the time-estimate updater\<close>

lemma lower_keywords:
  "map lower very_complex_keywords = very_complex_keywords"
  "map lower complex_keywords = complex_keywords"
  "map lower simple_keywords = simple_keywords"
  by (simp_all add: very_complex_keywords_def complex_keywords_def simple_keywords_def
        lower_def lower_char_def capital_def)

lemma list_ex_occurs_ci:
  "map lower ks = ks \<Longrightarrow> list_ex (\<lambda>k. occurs_ci k s) ks = any_keyword ks (lower s)"
proof (induction ks)
  case Nil
  show ?case by (simp add: any_keyword_def)
next
  case (Cons k ks)
  then have "lower k = k" and "map lower ks = ks" by simp_all
  with Cons.IH show ?case by (simp add: any_keyword_def occurs_ci_def)
qed

lemma tier_spec_code:
  "tier_spec s =
     (if any_keyword very_complex_keywords (lower s) then Very_complex
      else if any_keyword complex_keywords (lower s) then Complex
      else if any_keyword simple_keywords (lower s) then Simple
      else Medium)"
  by (simp add: tier_spec_def list_ex_occurs_ci lower_keywords)

lemma categorize_task_tier:
  "categorize_task c t =
     (case tier_spec (summary t) of
        Very_complex \<Rightarrow> c\<lparr>very_complex_tasks := very_complex_tasks c @ [t]\<rparr>
      | Complex \<Rightarrow> c\<lparr>complex_tasks := complex_tasks c @ [t]\<rparr>
      | Simple \<Rightarrow> c\<lparr>simple_tasks := simple_tasks c @ [t]\<rparr>
      | Medium \<Rightarrow> c\<lparr>medium_tasks := medium_tasks c @ [t]\<rparr>)"
  by (simp add: categorize_task_def tier_spec_code Let_def)

lemma foldl_categorize_task:
  "foldl categorize_task c ts =
     \<lparr>simple_tasks = simple_tasks c @ in_tier Simple ts,
      medium_tasks = medium_tasks c @ in_tier Medium ts,
      complex_tasks = complex_tasks c @ in_tier Complex ts,
      very_complex_tasks = very_complex_tasks c @ in_tier Very_complex ts\<rparr>"
proof (induction ts arbitrary: c)
  case Nil
  show ?case by (simp add: in_tier_def)
next
  case (Cons t ts)
  show ?case
    by (cases "tier_spec (summary t)")
       (simp_all add: Cons.IH categorize_task_tier [of c t] in_tier_def)
qed

lemma categorize_in_tier:
  "categorize ts =
     \<lparr>simple_tasks = in_tier Simple ts, medium_tasks = in_tier Medium ts,
      complex_tasks = in_tier Complex ts, very_complex_tasks = in_tier Very_complex ts\<rparr>"
  by (simp add: categorize_def foldl_categorize_task no_tasks_def)

lemma length_in_tier_sum:
  "length (in_tier Simple ts) + length (in_tier Medium ts) + length (in_tier Complex ts)
     + length (in_tier Very_complex ts) = length ts"
proof (induction ts)
  case Nil
  show ?case by (simp add: in_tier_def)
next
  case (Cons t ts)
  then show ?case by (cases "tier_spec (summary t)") (simp_all add: in_tier_def)
qed

lemma tier_list_categorize: "tier_list r (categorize ts) = in_tier r ts"
  by (cases r) (simp_all add: tier_list_def categorize_in_tier)

lemma determine_hours_tier: "determine_hours h t = tier_hours (tier_spec (summary t)) h"
  by (simp add: determine_hours_def tier_spec_code tier_hours_def Let_def)

lemma puts_update_tasks:
  "puts (fst (update_tasks J f ts n)) = map (\<lambda>t. (key t, f t)) ts"
  by (induction ts arbitrary: n) (simp_all add: puts_def Let_def)

lemma categorize_four_tasks:
  "categorize four_tasks =
     \<lparr>simple_tasks = [four_tasks ! 2], medium_tasks = [four_tasks ! 3],
      complex_tasks = [four_tasks ! 1], very_complex_tasks = [four_tasks ! 0]\<rparr>"
  by code_simp

lemma categorize_seventeen_tasks:
  "categorize seventeen_tasks =
     \<lparr>simple_tasks = seventeen_tasks, medium_tasks = [], complex_tasks = [],
      very_complex_tasks = []\<rparr>"
  by code_simp

lemma length_seventeen_tasks: "length seventeen_tasks = 17"
  by (simp add: seventeen_tasks_def)

text \<open>
  C2. Every sub-task is put into exactly one of the four lists, and the list is the tier
  that case-insensitive substring matching of the keyword lists gives for its summary,
  the very complex keywords first, then the complex ones, then the simple ones, medium
  when no keyword matches (\<open>tier_spec\<close>). The four lists together hold as many tasks as
  were fetched.
\<close>

theorem categorize_four_tiers:
  assumes "t \<in> set todo_tasks"
  shows "(\<forall>r. tier_list r (categorize todo_tasks) = in_tier r todo_tasks)
    \<and> (\<forall>r. t \<in> set (tier_list r (categorize todo_tasks)) \<longleftrightarrow> r = tier_spec (summary t))
    \<and> length (simple_tasks (categorize todo_tasks))
        + length (medium_tasks (categorize todo_tasks))
        + length (complex_tasks (categorize todo_tasks))
        + length (very_complex_tasks (categorize todo_tasks)) = length todo_tasks"
proof (intro conjI)
  show "\<forall>r. tier_list r (categorize todo_tasks) = in_tier r todo_tasks"
    by (simp add: tier_list_categorize)
  show "\<forall>r. t \<in> set (tier_list r (categorize todo_tasks)) \<longleftrightarrow> r = tier_spec (summary t)"
    using assms by (auto simp: tier_list_categorize in_tier_def)
  show "length (simple_tasks (categorize todo_tasks))
        + length (medium_tasks (categorize todo_tasks))
        + length (complex_tasks (categorize todo_tasks))
        + length (very_complex_tasks (categorize todo_tasks)) = length todo_tasks"
    by (simp add: categorize_in_tier length_in_tier_sum)
qed

theorem categorize_four_tiers_witness:
  "four_tasks ! 1 \<in> set four_tasks
   \<and> tier_spec (summary (four_tasks ! 1)) = Complex
   \<and> four_tasks ! 1 \<notin> set (tier_list Very_complex (categorize four_tasks))
   \<and> four_tasks ! 1 \<notin> set (tier_list Simple (categorize four_tasks))
   \<and> four_tasks ! 1 \<notin> set (tier_list Medium (categorize four_tasks))"
proof -
  have m: "four_tasks ! 1 \<in> set four_tasks"
    by (simp add: four_tasks_def)
  have c: "four_tasks ! 1 \<in> set (tier_list Complex (categorize four_tasks))"
    by (simp add: categorize_four_tasks tier_list_def)
  from categorize_four_tiers [OF m]
  have u: "\<forall>r. four_tasks ! 1 \<in> set (tier_list r (categorize four_tasks))
             \<longleftrightarrow> r = tier_spec (summary (four_tasks ! 1))"
    by blast
  from u have "four_tasks ! 1 \<in> set (tier_list Complex (categorize four_tasks))
      \<longleftrightarrow> Complex = tier_spec (summary (four_tasks ! 1))"
    by (rule spec)
  then have "Complex = tier_spec (summary (four_tasks ! 1))"
    using c by (rule iffD1)
  then have e: "tier_spec (summary (four_tasks ! 1)) = Complex"
    by (rule sym)
  from u e have "four_tasks ! 1 \<notin> set (tier_list Very_complex (categorize four_tasks))"
    and "four_tasks ! 1 \<notin> set (tier_list Simple (categorize four_tasks))"
    and "four_tasks ! 1 \<notin> set (tier_list Medium (categorize four_tasks))"
    by simp_all
  with m e show ?thesis
    by blast
qed

text \<open>
  For a list of tasks that is not empty the estimated total is positive, so the hours of
  each tier are its base hours times 120 over the estimated total, rounded to one decimal
  place. In the exact arithmetic of the model, rounding moves each of them by at most
  0.05, and the total of the assigned hours lies within 0.05 hours per task of 120, on
  either side.
\<close>

lemma estimated_total_positive:
  assumes "todo_tasks \<noteq> []"
  shows "0 < estimated_total (categorize todo_tasks)"
proof -
  let ?a = "length (in_tier Simple todo_tasks)" and ?b = "length (in_tier Medium todo_tasks)"
  let ?c = "length (in_tier Complex todo_tasks)"
  let ?d = "length (in_tier Very_complex todo_tasks)"
  have "?a + ?b + ?c + ?d = length todo_tasks"
    by (rule length_in_tier_sum)
  with assms have "0 < ?a + ?b + ?c + ?d"
    by simp
  then have "0 < (of_nat (?a + ?b + ?c + ?d) :: rat)"
    by (simp only: of_nat_0_less_iff)
  then have "0 < (of_nat ?a :: rat) + of_nat ?b + of_nat ?c + of_nat ?d"
    by simp
  moreover have "(0 :: rat) \<le> of_nat ?a" "(0 :: rat) \<le> of_nat ?b" "(0 :: rat) \<le> of_nat ?c"
    "(0 :: rat) \<le> of_nat ?d"
    by simp_all
  ultimately have "0 < (of_nat ?a :: rat) * (3 / 2) + of_nat ?b * (5 / 2) + of_nat ?c * (7 / 2)
      + of_nat ?d * (9 / 2)"
    by linarith
  then show ?thesis
    by (simp add: estimated_total_def categorize_in_tier)
qed

lemma hour_allocations_scaled:
  assumes "todo_tasks \<noteq> []"
  shows "hour_allocations (categorize todo_tasks) =
     \<lparr>simple_hours = py_round1 (3 / 2 * (120 / estimated_total (categorize todo_tasks))),
      medium_hours = py_round1 (5 / 2 * (120 / estimated_total (categorize todo_tasks))),
      complex_hours = py_round1 (7 / 2 * (120 / estimated_total (categorize todo_tasks))),
      very_complex_hours = py_round1 (9 / 2 * (120 / estimated_total (categorize todo_tasks)))\<rparr>"
  using estimated_total_positive [OF assms]
  by (simp add: hour_allocations_def scaling_factor_def)

lemma py_round1_error: "\<bar>py_round1 x - x\<bar> \<le> 1 / 20"
proof -
  define y where "y = x * 10"
  define f where "f = \<lfloor>y\<rfloor>"
  define d where "d = y - of_int f"
  define k where "k = (if d < 1 / 2 then f else if 1 / 2 < d then f + 1
              else if even f then f else f + 1)"
  have d: "0 \<le> d" "d < 1"
    unfolding d_def f_def by linarith+
  have y: "y = of_int f + d"
    unfolding d_def by simp
  have r: "py_round1 x = of_int k / 10"
    unfolding py_round1_def Let_def k_def d_def f_def y_def by simp
  have "py_round1 x - x = of_int k / 10 - x"
    by (simp only: r)
  also have "\<dots> = (of_int k - y) / 10"
    unfolding y_def by (simp add: diff_divide_distrib)
  finally have e: "py_round1 x - x = (of_int k - y) / 10" .
  consider "d < 1 / 2" | "1 / 2 < d" | "d = 1 / 2"
    by linarith
  then have "\<bar>(of_int k :: rat) - y\<bar> \<le> 1 / 2"
  proof cases
    case 1
    then have "k = f" by (simp add: k_def)
    with 1 d show ?thesis by (simp add: y)
  next
    case 2
    then have "k = f + 1" by (simp add: k_def)
    with 2 d show ?thesis by (simp add: y)
  next
    case 3
    then have "k = f \<or> k = f + 1" by (simp add: k_def)
    with 3 show ?thesis by (auto simp: y)
  qed
  then show ?thesis
    unfolding e by simp
qed

lemma total_hours_near_budget:
  assumes "todo_tasks \<noteq> []"
  shows "\<bar>total_hours (categorize todo_tasks) (hour_allocations (categorize todo_tasks)) - 120\<bar>
    \<le> of_nat (length todo_tasks) / 20"
proof -
  let ?c = "categorize todo_tasks"
  define a b g d where "a = (of_nat (length (simple_tasks ?c)) :: rat)"
    and "b = (of_nat (length (medium_tasks ?c)) :: rat)"
    and "g = (of_nat (length (complex_tasks ?c)) :: rat)"
    and "d = (of_nat (length (very_complex_tasks ?c)) :: rat)"
  define s where "s = 120 / estimated_total ?c"
  define e1 e2 e3 e4 where "e1 = py_round1 (3 / 2 * s) - 3 / 2 * s"
    and "e2 = py_round1 (5 / 2 * s) - 5 / 2 * s"
    and "e3 = py_round1 (7 / 2 * s) - 7 / 2 * s"
    and "e4 = py_round1 (9 / 2 * s) - 9 / 2 * s"
  have e: "\<bar>e1\<bar> \<le> 1 / 20" "\<bar>e2\<bar> \<le> 1 / 20" "\<bar>e3\<bar> \<le> 1 / 20" "\<bar>e4\<bar> \<le> 1 / 20"
    unfolding e1_def e2_def e3_def e4_def by (rule py_round1_error)+
  have n: "0 \<le> a" "0 \<le> b" "0 \<le> g" "0 \<le> d"
    unfolding a_def b_def g_def d_def by simp_all
  have p: "0 < estimated_total ?c"
    using assms by (rule estimated_total_positive)
  have "estimated_total ?c * s = 120"
    unfolding s_def using p by simp
  moreover have "estimated_total ?c = a * (3 / 2) + b * (5 / 2) + g * (7 / 2) + d * (9 / 2)"
    unfolding estimated_total_def a_def b_def g_def d_def ..
  ultimately have q: "(a * (3 / 2) + b * (5 / 2) + g * (7 / 2) + d * (9 / 2)) * s = 120"
    by simp
  have "total_hours ?c (hour_allocations ?c) =
      a * py_round1 (3 / 2 * s) + b * py_round1 (5 / 2 * s) + g * py_round1 (7 / 2 * s)
        + d * py_round1 (9 / 2 * s)"
    unfolding hour_allocations_scaled [OF assms] total_hours_def a_def b_def g_def d_def s_def
    by simp
  also have "\<dots> = a * (e1 + 3 / 2 * s) + b * (e2 + 5 / 2 * s) + g * (e3 + 7 / 2 * s)
        + d * (e4 + 9 / 2 * s)"
    unfolding e1_def e2_def e3_def e4_def by simp
  also have "\<dots> = a * e1 + b * e2 + g * e3 + d * e4
      + (a * (3 / 2) + b * (5 / 2) + g * (7 / 2) + d * (9 / 2)) * s"
    by (simp only: distrib_left distrib_right mult.assoc add.assoc add.left_commute)
  finally have t: "total_hours ?c (hour_allocations ?c) - 120 = a * e1 + b * e2 + g * e3 + d * e4"
    unfolding q by simp
  have "length (simple_tasks ?c) + length (medium_tasks ?c) + length (complex_tasks ?c)
      + length (very_complex_tasks ?c) = length todo_tasks"
    by (simp add: categorize_in_tier length_in_tier_sum)
  then have "(of_nat (length (simple_tasks ?c) + length (medium_tasks ?c)
      + length (complex_tasks ?c) + length (very_complex_tasks ?c)) :: rat)
      = of_nat (length todo_tasks)"
    by (simp only:)
  then have l: "a + b + g + d = of_nat (length todo_tasks)"
    unfolding a_def b_def g_def d_def by (simp only: of_nat_add)
  have m: "\<bar>u * v\<bar> \<le> u * (1 / 20)" if "0 \<le> u" and "\<bar>v\<bar> \<le> 1 / 20" for u v :: rat
  proof -
    have "\<bar>u * v\<bar> = u * \<bar>v\<bar>"
      using that(1) by (simp add: abs_mult)
    also have "\<dots> \<le> u * (1 / 20)"
      using that(2) that(1) by (rule mult_left_mono)
    finally show ?thesis .
  qed
  have "\<bar>a * e1 + b * e2 + g * e3 + d * e4\<bar> \<le> \<bar>a * e1\<bar> + \<bar>b * e2\<bar> + \<bar>g * e3\<bar> + \<bar>d * e4\<bar>"
    by (intro order_trans [OF abs_triangle_ineq] add_mono order_refl)
  also have "\<dots> \<le> a * (1 / 20) + b * (1 / 20) + g * (1 / 20) + d * (1 / 20)"
    by (intro add_mono m n e)
  also have "\<dots> = (a + b + g + d) * (1 / 20)"
    by (simp only: distrib_right)
  finally show ?thesis
    unfolding t l by simp
qed

text \<open>
  C3. Seventeen To Do sub-tasks of the simple tier: the estimated total is 25.5 hours,
  the scaling factor 120 / 25.5, every task is given round(1.5 * 120 / 25.5, 1) = 7.1
  hours, and the total of the assigned hours is 120.7, above the budget of 120.
\<close>

theorem total_hours_seventeen_tasks:
  "estimated_total (categorize seventeen_tasks) = 51 / 2
   \<and> simple_hours (hour_allocations (categorize seventeen_tasks))
       = py_round1 (3 / 2 * (120 / estimated_total (categorize seventeen_tasks)))
   \<and> simple_hours (hour_allocations (categorize seventeen_tasks)) = 71 / 10
   \<and> total_hours (categorize seventeen_tasks) (hour_allocations (categorize seventeen_tasks))
       = 1207 / 10
   \<and> 120 < total_hours (categorize seventeen_tasks)
             (hour_allocations (categorize seventeen_tasks))"
proof -
  have f: "\<lfloor>1200 / 17 :: rat\<rfloor> = 70"
    by (rule floor_unique) simp_all
  show ?thesis
    by (simp add: categorize_seventeen_tasks length_seventeen_tasks total_hours_def
          hour_allocations_def scaling_factor_def estimated_total_def py_round1_def Let_def f)
qed

text \<open>
  C9. The two keyword passes agree. A task of the fetched list is in exactly one of the
  lists built by the first pass, and the hours that the update loop determines for it,
  and writes to its issue, are the hours of that tier.
\<close>

theorem update_loop_charges_counted_tier:
  assumes "t \<in> set todo_tasks"
  shows "\<exists>r. t \<in> set (tier_list r (categorize todo_tasks))
    \<and> (\<forall>r'. t \<in> set (tier_list r' (categorize todo_tasks)) \<longrightarrow> r' = r)
    \<and> determine_hours h t = tier_hours r h
    \<and> (key t, tier_hours r h)
        \<in> set (puts (fst (update_tasks J (determine_hours h) todo_tasks n)))"
proof (intro exI [of _ "tier_spec (summary t)"] conjI)
  show "t \<in> set (tier_list (tier_spec (summary t)) (categorize todo_tasks))"
    using assms by (simp add: tier_list_categorize in_tier_def)
  show "\<forall>r'. t \<in> set (tier_list r' (categorize todo_tasks)) \<longrightarrow> r' = tier_spec (summary t)"
    by (simp add: tier_list_categorize in_tier_def)
  show "determine_hours h t = tier_hours (tier_spec (summary t)) h"
    by (rule determine_hours_tier)
  have "(key t, determine_hours h t) \<in> (\<lambda>t. (key t, determine_hours h t)) ` set todo_tasks"
    using assms by (rule imageI)
  then show "(key t, tier_hours (tier_spec (summary t)) h)
      \<in> set (puts (fst (update_tasks J (determine_hours h) todo_tasks n)))"
    by (simp add: puts_update_tasks determine_hours_tier)
qed

theorem update_loop_charges_counted_tier_witness:
  "four_tasks ! 0 \<in> set four_tasks
   \<and> four_tasks ! 0 \<in> set (very_complex_tasks (categorize four_tasks))
   \<and> determine_hours (hour_allocations (categorize four_tasks)) (four_tasks ! 0)
       = very_complex_hours (hour_allocations (categorize four_tasks))"
proof -
  have m: "four_tasks ! 0 \<in> set four_tasks"
    by (simp add: four_tasks_def)
  have v: "four_tasks ! 0 \<in> set (tier_list Very_complex (categorize four_tasks))"
    by (simp add: categorize_four_tasks tier_list_def)
  from update_loop_charges_counted_tier [OF m, of "hour_allocations (categorize four_tasks)"]
  obtain r where
    u: "\<forall>r'. four_tasks ! 0 \<in> set (tier_list r' (categorize four_tasks)) \<longrightarrow> r' = r"
    and d: "determine_hours (hour_allocations (categorize four_tasks)) (four_tasks ! 0)
        = tier_hours r (hour_allocations (categorize four_tasks))"
    by blast
  from u v have "r = Very_complex" by blast
  with d m v show ?thesis
    by (simp add: tier_hours_def tier_list_def)
qed

section \<open>Properties of the firmware packager\<close>

lemma str_in_single: "str_in [c] l \<longleftrightarrow> c \<in> set l"
  by (auto simp: str_in_def sublist_def in_set_conv_decomp)

lemma split_not_Nil: "split sep s \<noteq> []"
  by (induction s) (auto split: list.splits)

lemma length_split: "length (split sep s) = count_list s sep + 1"
  by (induction s) (auto simp: split_not_Nil split: list.splits)

lemma count_list_dropWhile:
  "\<not> P c \<Longrightarrow> count_list (dropWhile P s) c = count_list s c"
  by (induction s) auto

lemma count_list_rev: "count_list (rev s) c = count_list s c"
  by (induction s) auto

lemma not_space_equals: "\<not> is_space (CHR ''='')"
  by (simp add: is_space_def)

lemma count_list_strip: "count_list (strip l) (CHR ''='') = count_list l (CHR ''='')"
  by (simp add: strip_def count_list_rev count_list_dropWhile not_space_equals)

lemma two_parts: "(\<exists>k v. xs = [k, v]) \<longleftrightarrow> length xs = 2"
  by (cases xs rule: list.exhaust; cases "tl xs"; auto)

lemma split_two_parts:
  "(\<exists>k v. split (CHR ''='') (strip l) = [k, v]) \<longleftrightarrow> one_equals l"
  by (simp add: two_parts length_split count_list_strip one_equals_def)

lemma parse_version_total_iff:
  "(\<exists>vars'. parse_version ls vars = Inr vars')
     \<longleftrightarrow> (\<forall>l \<in> set ls. str_in ''='' l \<longrightarrow> one_equals l)"
proof (induction ls arbitrary: vars)
  case Nil
  show ?case by simp
next
  case (Cons l ls)
  show ?case
  proof (cases "str_in ''='' l")
    case False
    then show ?thesis using Cons.IH by simp
  next
    case True
    show ?thesis
    proof (cases "one_equals l")
      case True
      then obtain k v where "split (CHR ''='') (strip l) = [k, v]"
        using split_two_parts by blast
      with \<open>str_in ''='' l\<close> True show ?thesis using Cons.IH by simp
    next
      case False
      then have "\<nexists>k v. split (CHR ''='') (strip l) = [k, v]"
        using split_two_parts by blast
      then have "(case split (CHR ''='') (strip l) of
           [k, v] \<Rightarrow> parse_version ls (vars(strip k \<mapsto> strip v))
         | _ \<Rightarrow> Inl ValueError) = Inl ValueError"
        by (auto split: list.splits)
      with \<open>str_in ''='' l\<close> False show ?thesis by simp
    qed
  qed
qed

lemma read_version_lines: "read_version version_lines = Inr ''V1.2.3''"
  by code_simp

lemma read_version_lines_two_equals: "read_version version_lines_two_equals = Inl ValueError"
  by code_simp


lemma strip_spaces:
  "strip (''1'' @ [CHR 0xA0, CHR 0x0A]) = ''1''" "strip ([CHR 0x85] @ ''PATCHLEVEL '') = ''PATCHLEVEL''"
  by (simp_all add: strip_def is_space_def)








text \<open>
  C10. The parse of the VERSION file is not total. The file \<open>version_lines\<close> holds the
  three keys and gives V1.2.3; the same file with one more line that has two equals
  signs makes the two-value unpacking raise ValueError, which nothing catches, so the
  packager ends with that exception. For every file, the loop over the lines returns the
  dictionary exactly when every line that contains an equals sign contains one.
\<close>

theorem version_parse_not_total:
  "read_version version_lines = Inr ''V1.2.3''
   \<and> set version_lines \<subseteq> set version_lines_two_equals
   \<and> read_version version_lines_two_equals = Inl ValueError
   \<and> generate_updates project_two_equals = Inl (Raised ValueError)
   \<and> ((\<exists>version_vars. parse_version ls Map.empty = Inr version_vars)
        \<longleftrightarrow> (\<forall>l \<in> set ls. str_in ''='' l \<longrightarrow> one_equals l))"
proof (intro conjI)
  show "read_version version_lines = Inr ''V1.2.3''"
    by (rule read_version_lines)
  show "set version_lines \<subseteq> set version_lines_two_equals"
    by (auto simp: version_lines_two_equals_def)
  show "read_version version_lines_two_equals = Inl ValueError"
    by (rule read_version_lines_two_equals)
  show "generate_updates project_two_equals = Inl (Raised ValueError)"
    by (simp add: generate_updates_def project_two_equals_def read_version_lines_two_equals
          example_boards_def)
  show "(\<exists>version_vars. parse_version ls Map.empty = Inr version_vars)
        \<longleftrightarrow> (\<forall>l \<in> set ls. str_in ''='' l \<longrightarrow> one_equals l)"
    by (rule parse_version_total_iff)
qed

theorem version_parse_not_total_witness:
  "str_in ''='' (version_lines ! 0) \<and> one_equals (version_lines ! 0)
   \<and> (\<exists>version_vars. parse_version version_lines Map.empty = Inr version_vars)"
proof -
  have "\<forall>l \<in> set version_lines. str_in ''='' l \<longrightarrow> one_equals l"
    by (simp add: version_lines_def one_equals_def)
  with version_parse_not_total [of version_lines]
  have "\<exists>version_vars. parse_version version_lines Map.empty = Inr version_vars"
    by blast
  moreover have "str_in ''='' (version_lines ! 0)" and "one_equals (version_lines ! 0)"
    by (simp_all add: version_lines_def one_equals_def str_in_single)
  ultimately show ?thesis by blast
qed

section \<open>Properties of the acceptance test runner\<close>

lemma found_expected_iff:
  "found_expected es response \<longleftrightarrow> (\<exists>e \<in> set es. occurs_ci e response)"
  by (induction es) (auto simp: occurs_ci_def)

lemma all_less_Suc: "(\<forall>j < Suc n. P j) \<longleftrightarrow> P 0 \<and> (\<forall>j < n. P (Suc j))"
proof
  assume "\<forall>j < Suc n. P j"
  then show "P 0 \<and> (\<forall>j < n. P (Suc j))" by auto
next
  assume a: "P 0 \<and> (\<forall>j < n. P (Suc j))"
  show "\<forall>j < Suc n. P j"
  proof (intro allI impI)
    fix j assume "j < Suc n"
    with a show "P j" by (cases j) auto
  qed
qed

lemma test_passed_run_commands:
  "test_passed (run_commands es window i cmds st) \<longleftrightarrow>
     test_passed st
     \<and> (\<forall>j < length cmds. send_command (window (i + j)) \<noteq> []
           \<and> (es = [] \<or> found_expected es (send_command (window (i + j)))))"
proof (induction cmds arbitrary: i st)
  case Nil
  show ?case by simp
next
  case (Cons c cmds)
  show ?case
    by (simp add: Cons.IH Let_def all_less_Suc)
qed

lemma passed_run_test_case:
  "passed (run_test_case info window elapsed_time) \<longleftrightarrow>
     (\<forall>i < length (commands info). send_command (window i) \<noteq> []
        \<and> (expected info = [] \<or> (\<exists>e \<in> set (expected info). occurs_ci e (send_command (window i)))))"
  by (simp add: run_test_case_def Let_def test_passed_run_commands found_expected_iff)

lemma expected_TEST_CASES: "(test_id, info) \<in> set TEST_CASES \<Longrightarrow> expected info \<noteq> []"
  by (auto simp: TEST_CASES_def)

lemma distinct_TEST_CASES: "distinct (map fst TEST_CASES)"
  by (simp add: TEST_CASES_def)

lemma RDP_187_TEST_CASES: "(''RDP-187'', RDP_187) \<in> set TEST_CASES"
  by (simp add: TEST_CASES_def RDP_187_def)

lemma test_results_run_tests:
  "test_results (run_tests B tcs T) =
     test_results T @ map (\<lambda>(test_id, info). (test_id, result_on B test_id info)) tcs"
  by (induction tcs arbitrary: T) (auto simp: Let_def result_on_def)

lemma effects_run_tests:
  "effects (run_tests B tcs T) =
     effects T @ concat (map (\<lambda>(test_id, info).
        update_jira_task (tracker_of B) (clock B test_id) test_id (passed (result_on B test_id info))
          (max (elapsed_minutes (result_on B test_id info)) 1)) tcs)"
  by (induction tcs arbitrary: T) (auto simp: Let_def result_on_def)

lemma worklogs_append: "worklogs (xs @ ys) = worklogs xs @ worklogs ys"
  by (simp add: worklogs_def)

lemma worklogs_move_to_done: "worklogs (move_to_done J test_id) = []"
  by (auto simp: move_to_done_def worklogs_def split: reply.splits option.splits)

lemma worklogs_update_jira_task:
  "worklogs (update_jira_task J now test_id ok m) = [(test_id, worklog_data now ok m)]"
  using worklogs_move_to_done [of J test_id]
  by (simp add: update_jira_task_def worklogs_def split: reply.splits)

lemma passed_quick: "passed (result_on (quick_bench J) ''RDP-187'' RDP_187)"
  by (simp add: passed_run_test_case result_on_def quick_bench_def RDP_187_def send_command_def
       occurs_ci_def lower_def lower_char_def capital_def str_in_def)

lemma map_of_RDP_187: "map_of TEST_CASES ''RDP-187'' = Some RDP_187"
  by (simp add: TEST_CASES_def RDP_187_def)

lemma elapsed_quick: "elapsed_minutes (result_on (quick_bench J) ''RDP-187'' RDP_187) = 1 / 50"
  by (simp add: run_test_case_def result_on_def quick_bench_def Let_def map_of_RDP_187)
     (simp add: RDP_187_def)

lemma str_int_1: "str_int 1 = ''1''"
  by code_simp

lemma get_transitions_update:
  "Get_transitions k \<in> set (update_jira_task J now test_id ok m) \<longleftrightarrow>
     k = test_id \<and> ok \<and> post_worklog J test_id (worklog_data now ok m) \<noteq> Raises"
  by (auto simp: update_jira_task_def move_to_done_def split: reply.splits option.splits if_splits)

lemma find_done_Some:
  "find_done ts = Some x \<Longrightarrow> \<exists>t \<in> set ts. lower (transition_name t) = ''done'' \<and> transition_id t = x"
  by (induction ts) (auto split: if_splits)

lemma post_transition_move:
  "Post_transition k x \<in> set (move_to_done J test_id) \<longleftrightarrow>
     k = test_id \<and> x \<noteq> [] \<and> (\<exists>ts. get_transitions J test_id = Response 200 ts \<and> find_done ts = Some x)"
  by (auto simp: move_to_done_def split: reply.splits option.splits if_splits)

lemma post_transition_update:
  "Post_transition k x \<in> set (update_jira_task J now test_id ok m) \<longleftrightarrow>
     k = test_id \<and> ok \<and> post_worklog J test_id (worklog_data now ok m) \<noteq> Raises
     \<and> x \<noteq> [] \<and> (\<exists>ts. get_transitions J test_id = Response 200 ts \<and> find_done ts = Some x)"
  by (auto simp: update_jira_task_def post_transition_move split: reply.splits)

lemma int_trunc_max: "int_trunc (max x 1) = max 1 \<lfloor>x\<rfloor>"
  by (auto simp: int_trunc_def max_def)

lemma worklogs_run_tests:
  "worklogs (effects (run_tests B tcs T)) =
     worklogs (effects T)
     @ map (\<lambda>(test_id, info).
          (test_id, worklog_data (clock B test_id) (passed (result_on B test_id info))
                      (max (elapsed_minutes (result_on B test_id info)) 1))) tcs"
  by (induction tcs arbitrary: T)
     (auto simp: Let_def result_on_def worklogs_append worklogs_update_jira_task)

lemma passed_count_run_tests:
  "passed_count (run_tests B tcs T) =
     passed_count T + length (filter (\<lambda>(test_id, info). passed (result_on B test_id info)) tcs)"
  by (induction tcs arbitrary: T) (auto simp: Let_def result_on_def)

lemma failed_count_run_tests:
  "failed_count (run_tests B tcs T) =
     failed_count T + length (filter (\<lambda>(test_id, info). \<not> passed (result_on B test_id info)) tcs)"
  by (induction tcs arbitrary: T) (auto simp: Let_def result_on_def)

lemma get_transitions_run_tests:
  "Get_transitions k \<in> set (effects (run_tests B tcs T)) \<longleftrightarrow>
     Get_transitions k \<in> set (effects T)
     \<or> (\<exists>info. (k, info) \<in> set tcs \<and> passed (result_on B k info)
          \<and> post_worklog (tracker_of B) k
               (worklog_data (clock B k) True (max (elapsed_minutes (result_on B k info)) 1))
              \<noteq> Raises)"
  by (auto simp: effects_run_tests get_transitions_update)

lemma post_transition_run_tests:
  "Post_transition k x \<in> set (effects (run_tests B tcs T)) \<longleftrightarrow>
     Post_transition k x \<in> set (effects T)
     \<or> (\<exists>info. (k, info) \<in> set tcs \<and> passed (result_on B k info)
          \<and> post_worklog (tracker_of B) k
               (worklog_data (clock B k) True (max (elapsed_minutes (result_on B k info)) 1))
              \<noteq> Raises
          \<and> x \<noteq> []
          \<and> (\<exists>ts. get_transitions (tracker_of B) k = Response 200 ts \<and> find_done ts = Some x))"
  by (auto simp: effects_run_tests post_transition_update)

lemma same_test_info:
  "(k, a) \<in> set TEST_CASES \<Longrightarrow> (k, b) \<in> set TEST_CASES \<Longrightarrow> a = b"
  using distinct_TEST_CASES by (rule eq_key_imp_eq_value)

lemma in_image_TEST_CASES:
  assumes "(k, info) \<in> set TEST_CASES"
  shows "(k, y) \<in> (\<lambda>(k, i). (k, g k i)) ` set TEST_CASES \<longleftrightarrow> y = g k info"
proof
  assume "(k, y) \<in> (\<lambda>(k, i). (k, g k i)) ` set TEST_CASES"
  then obtain i where i: "(k, i) \<in> set TEST_CASES" and y: "y = g k i"
    by (auto simp: image_iff)
  from i assms have "i = info" by (rule same_test_info)
  with y show "y = g k info" by simp
next
  assume "y = g k info"
  with assms show "(k, y) \<in> (\<lambda>(k, i). (k, g k i)) ` set TEST_CASES"
    by (force simp: image_iff)
qed

lemma join_lines_response_text: "join_lines msgs = response_text msgs"
  by (induction msgs rule: join_lines.induct) (simp_all add: response_text_def)

lemma capital_bound: "capital c \<Longrightarrow> (of_char c :: nat) + 32 < 256"
  by (auto simp: capital_def Let_def)

lemma of_char_lower_char:
  "(of_char (lower_char c) :: nat) = (if capital c then of_char c + 32 else of_char c)"
  by (simp add: lower_char_def capital_bound)

lemma capital_small: "capital a \<Longrightarrow> (of_char b :: nat) = of_char a + 32 \<Longrightarrow> \<not> capital b"
  by (auto simp: capital_def Let_def)

lemma lower_char_eq_iff: "lower_char a = lower_char b \<longleftrightarrow> same_letter a b"
proof -
  have "lower_char a = lower_char b
      \<longleftrightarrow> (of_char (lower_char a) :: nat) = of_char (lower_char b)"
    by simp
  also have "\<dots> \<longleftrightarrow> same_letter a b"
  proof (cases "capital a"; cases "capital b")
    assume "capital a" "capital b"
    then show ?thesis
      using capital_small [of a b] capital_small [of b a]
      by (auto simp: of_char_lower_char same_letter_def)
  next
    assume "capital a" "\<not> capital b"
    then show ?thesis
      by (auto simp: of_char_lower_char same_letter_def)
  next
    assume "\<not> capital a" "capital b"
    then show ?thesis
      by (auto simp: of_char_lower_char same_letter_def)
  next
    assume "\<not> capital a" "\<not> capital b"
    then show ?thesis
      by (auto simp: of_char_lower_char same_letter_def)
  qed
  finally show ?thesis .
qed

lemma starts_with_ci_prefix: "starts_with_ci s token \<longleftrightarrow> prefix (lower token) (lower s)"
  by (induction s token rule: starts_with_ci.induct)
     (auto simp: lower_def lower_char_eq_iff)

lemma ci_substring_occurs_ci: "ci_substring token s \<longleftrightarrow> occurs_ci token s"
proof (induction s)
  case Nil
  show ?case by (simp add: occurs_ci_def str_in_def lower_def)
next
  case (Cons c s)
  have "occurs_ci token (c # s)
      \<longleftrightarrow> prefix (lower token) (lower (c # s)) \<or> sublist (lower token) (lower s)"
    by (simp add: occurs_ci_def str_in_def lower_def sublist_Cons_right)
  with Cons.IH show ?case
    by (simp add: starts_with_ci_prefix occurs_ci_def str_in_def)
qed

text \<open>
  C1. A test case of \<open>TEST_CASES\<close> is passed exactly when, for every one of its commands,
  the response text of the wait window of the command, which holds every message that
  arrived in it, is not empty and one of the expected strings of the test case occurs in
  it as a case-insensitive substring. On a bench whose MQTT connection is set up, the run
  stores that result under the test id and counts the passed tests.
\<close>

theorem test_passed_iff_responses_match:
  assumes "(test_id, info) \<in> set TEST_CASES"
  shows "(passed (run_test_case info window elapsed_time) \<longleftrightarrow>
       (\<forall>i < length (commands info). response_text (window i) \<noteq> []
          \<and> (\<exists>e \<in> set (expected info). ci_substring e (response_text (window i)))))
    \<and> (mqtt_connects B \<longrightarrow>
         (\<exists>T. run_all_tests B = Some T
            \<and> (test_id, run_test_case info (window_of B test_id) (elapsed_time_of B test_id))
                 \<in> set (test_results T)
            \<and> passed_count T = length (filter (\<lambda>(k, r). passed r) (test_results T))))"
proof (intro conjI impI)
  from assms have "expected info \<noteq> []"
    by (rule expected_TEST_CASES)
  then show "passed (run_test_case info window elapsed_time) \<longleftrightarrow>
       (\<forall>i < length (commands info). response_text (window i) \<noteq> []
          \<and> (\<exists>e \<in> set (expected info). ci_substring e (response_text (window i))))"
    by (simp add: passed_run_test_case send_command_def join_lines_response_text
          ci_substring_occurs_ci)
next
  assume c: "mqtt_connects B"
  let ?T = "run_tests B TEST_CASES no_totals"
  have "run_all_tests B = Some ?T"
    using c by (simp add: run_all_tests_def)
  moreover have "(test_id, run_test_case info (window_of B test_id) (elapsed_time_of B test_id))
      \<in> set (test_results ?T)"
    using assms by (force simp: test_results_run_tests result_on_def no_totals_def)
  moreover have "passed_count ?T = length (filter (\<lambda>(k, r). passed r) (test_results ?T))"
    by (simp add: passed_count_run_tests test_results_run_tests no_totals_def filter_map
          comp_def case_prod_unfold)
  ultimately show "\<exists>T. run_all_tests B = Some T
            \<and> (test_id, run_test_case info (window_of B test_id) (elapsed_time_of B test_id))
                 \<in> set (test_results T)
            \<and> passed_count T = length (filter (\<lambda>(k, r). passed r) (test_results T))"
    by blast
qed

text \<open>
  C6, as amended. For every test case of a run, one worklog is posted to its issue, and
  its \<open>timeSpent\<close> is the number of whole minutes in the elapsed time, but at least one
  minute: \<open>int(max(elapsed_minutes, 1))\<close> followed by \<open>m\<close>.
\<close>

theorem worklog_time_spent:
  assumes "mqtt_connects B" and "(test_id, info) \<in> set TEST_CASES"
  shows "\<exists>T. run_all_tests B = Some T
    \<and> map fst (worklogs (effects T)) = map fst TEST_CASES
    \<and> (\<forall>w. (test_id, w) \<in> set (worklogs (effects T)) \<longleftrightarrow>
          w = \<lparr>timeSpent = str_int (max 1 \<lfloor>elapsed_time_of B test_id / 60\<rfloor>) @ ''m'',
               comment = ''Automated test ''
                 @ (if passed (result_on B test_id info) then ''passed'' else ''failed'')
                 @ '' via MQTT CLI interface'',
               started = clock B test_id\<rparr>)"
proof -
  let ?T = "run_tests B TEST_CASES no_totals"
  let ?f = "\<lambda>(test_id, info).
          (test_id, worklog_data (clock B test_id) (passed (result_on B test_id info))
                      (max (elapsed_minutes (result_on B test_id info)) 1))"
  have "worklogs (effects no_totals) = []"
    by (simp add: no_totals_def worklogs_def)
  then have w: "worklogs (effects ?T) = map ?f TEST_CASES"
    by (simp add: worklogs_run_tests)
  have e: "elapsed_minutes (result_on B test_id info) = elapsed_time_of B test_id / 60"
    by (simp add: result_on_def run_test_case_def Let_def)
  have "run_all_tests B = Some ?T"
    using assms(1) by (simp add: run_all_tests_def)
  moreover have "map fst (worklogs (effects ?T)) = map fst TEST_CASES"
    by (simp add: w comp_def case_prod_unfold)
  moreover have "(test_id, x) \<in> set (worklogs (effects ?T)) \<longleftrightarrow>
      x = worklog_data (clock B test_id) (passed (result_on B test_id info))
            (max (elapsed_minutes (result_on B test_id info)) 1)" for x
    unfolding w set_map using assms(2) by (rule in_image_TEST_CASES)
  ultimately show ?thesis
    by (simp add: worklog_data_def int_trunc_max e)
qed

text \<open>
  C7, as amended. The transitions of an issue are requested exactly when its test case
  passed and the worklog request before it returned a response, whatever the status. The
  transition request is sent only after that, and only with the id of a transition that
  the tracker offered with status 200 and whose name is \<open>done\<close> in lower case.
\<close>

theorem done_transition_attempt:
  assumes "mqtt_connects B" and "(test_id, info) \<in> set TEST_CASES"
  shows "\<exists>T. run_all_tests B = Some T
    \<and> (Get_transitions test_id \<in> set (effects T) \<longleftrightarrow>
         passed (result_on B test_id info)
         \<and> post_worklog (tracker_of B) test_id
              (worklog_data (clock B test_id) True
                 (max (elapsed_minutes (result_on B test_id info)) 1)) \<noteq> Raises)
    \<and> (\<forall>x. Post_transition test_id x \<in> set (effects T) \<longrightarrow>
          Get_transitions test_id \<in> set (effects T)
          \<and> (\<exists>ts. get_transitions (tracker_of B) test_id = Response 200 ts
                \<and> (\<exists>t \<in> set ts. lower (transition_name t) = ''done'' \<and> transition_id t = x)))"
proof -
  let ?T = "run_tests B TEST_CASES no_totals"
  have "run_all_tests B = Some ?T"
    using assms(1) by (simp add: run_all_tests_def)
  moreover have g: "Get_transitions test_id \<in> set (effects ?T) \<longleftrightarrow>
         passed (result_on B test_id info)
         \<and> post_worklog (tracker_of B) test_id
              (worklog_data (clock B test_id) True
                 (max (elapsed_minutes (result_on B test_id info)) 1)) \<noteq> Raises"
  proof -
    have "(\<exists>i. (test_id, i) \<in> set TEST_CASES \<and> P i) \<longleftrightarrow> P info" for P
      using assms(2) same_test_info [OF _ assms(2)] by blast
    then show ?thesis
      by (simp add: get_transitions_run_tests no_totals_def)
  qed
  moreover have "Get_transitions test_id \<in> set (effects ?T)
          \<and> (\<exists>ts. get_transitions (tracker_of B) test_id = Response 200 ts
                \<and> (\<exists>t \<in> set ts. lower (transition_name t) = ''done'' \<and> transition_id t = x))"
    if "Post_transition test_id x \<in> set (effects ?T)" for x
  proof -
    from that obtain info' ts where i: "(test_id, info') \<in> set TEST_CASES"
      and p: "passed (result_on B test_id info')"
        "post_worklog (tracker_of B) test_id
               (worklog_data (clock B test_id) True
                  (max (elapsed_minutes (result_on B test_id info')) 1)) \<noteq> Raises"
      and t: "get_transitions (tracker_of B) test_id = Response 200 ts" "find_done ts = Some x"
      by (auto simp: post_transition_run_tests no_totals_def)
    from i have "info' = info" by (rule same_test_info [OF _ assms(2)])
    with p g have "Get_transitions test_id \<in> set (effects ?T)" by simp
    with t find_done_Some [OF t(2)] show ?thesis by blast
  qed
  ultimately show ?thesis by blast
qed

lemma run_all_tests_quick:
  "run_all_tests (quick_bench J) = Some (run_tests (quick_bench J) TEST_CASES no_totals)"
  by (simp add: run_all_tests_def quick_bench_def)

lemma worklog_data_quick:
  "worklog_data (clock (quick_bench J) ''RDP-187'')
       (passed (result_on (quick_bench J) ''RDP-187'' RDP_187))
       (max (elapsed_minutes (result_on (quick_bench J) ''RDP-187'' RDP_187)) 1)
     = \<lparr>timeSpent = ''1m'', comment = ''Automated test passed via MQTT CLI interface'',
        started = ''2025-01-01T00:00:00.000+0000''\<rparr>"
  by (simp add: worklog_data_def passed_quick elapsed_quick int_trunc_def str_int_1)
     (simp add: quick_bench_def)

theorem test_passed_iff_responses_match_witness:
  "(''RDP-186'', RDP_186) \<in> set TEST_CASES
   \<and> passed (run_test_case RDP_186 two_windows 3)
   \<and> \<not> passed (run_test_case RDP_186 one_window 3)
   \<and> mqtt_connects (quick_bench accepting_tracker)
   \<and> (''RDP-186'', result_on (quick_bench accepting_tracker) ''RDP-186'' RDP_186)
       \<in> set (test_results (run_tests (quick_bench accepting_tracker) TEST_CASES no_totals))"
proof -
  let ?B = "quick_bench accepting_tracker"
  let ?ok = "\<lambda>w i. response_text (w i) \<noteq> []
      \<and> (\<exists>e \<in> set (expected RDP_186). ci_substring e (response_text (w i)))"
  have m: "(''RDP-186'', RDP_186) \<in> set TEST_CASES"
    by (simp add: TEST_CASES_def RDP_186_def)
  have h: "passed (run_test_case RDP_186 two_windows 3)
      \<longleftrightarrow> (\<forall>i < length (commands RDP_186). ?ok two_windows i)"
    using test_passed_iff_responses_match [OF m, of two_windows 3 ?B] by (rule conjunct1)
  have h': "passed (run_test_case RDP_186 one_window 3)
      \<longleftrightarrow> (\<forall>i < length (commands RDP_186). ?ok one_window i)"
    using test_passed_iff_responses_match [OF m, of one_window 3 ?B] by (rule conjunct1)
  have r: "mqtt_connects ?B \<longrightarrow>
         (\<exists>T. run_all_tests ?B = Some T
            \<and> (''RDP-186'', run_test_case RDP_186 (window_of ?B ''RDP-186'')
                  (elapsed_time_of ?B ''RDP-186'')) \<in> set (test_results T)
            \<and> passed_count T = length (filter (\<lambda>(k, r). passed r) (test_results T)))"
    using test_passed_iff_responses_match [OF m, of two_windows 3 ?B] by (rule conjunct2)
  have l: "length (commands RDP_186) = 2"
    by (simp add: RDP_186_def)
  have e: "''Battery:'' \<in> set (expected RDP_186)" and e': "''Level:'' \<in> set (expected RDP_186)"
    by (simp_all add: RDP_186_def)
  have t0: "response_text (two_windows 0) = ''ok'' @ [CHR 0x0A] @ ''BATTERY: 80''"
    and t1: "response_text (two_windows (Suc 0)) = ''charge level: high''"
    and t': "response_text (one_window (Suc 0)) = []"
    by (simp_all add: two_windows_def one_window_def response_text_def)
  have b: "ci_substring ''Battery:'' (''ok'' @ [CHR 0x0A] @ ''BATTERY: 80'')"
    and v: "ci_substring ''Level:'' ''charge level: high''"
    by (simp_all add: same_letter_def capital_def)
  have o0: "?ok two_windows 0"
    unfolding t0 using b e by blast
  have o1: "?ok two_windows (Suc 0)"
    unfolding t1 using v e' by blast
  have "\<forall>i < length (commands RDP_186). ?ok two_windows i"
    unfolding l
  proof (intro allI impI)
    fix i :: nat
    assume "i < 2"
    then have "i = 0 \<or> i = Suc 0" by linarith
    with o0 o1 show "?ok two_windows i" by blast
  qed
  with h have p: "passed (run_test_case RDP_186 two_windows 3)"
    by (rule iffD2)
  have "\<not> (\<forall>i < length (commands RDP_186). ?ok one_window i)"
  proof
    assume "\<forall>i < length (commands RDP_186). ?ok one_window i"
    then have "Suc 0 < length (commands RDP_186) \<longrightarrow> ?ok one_window (Suc 0)"
      by (rule spec)
    with l have "response_text (one_window (Suc 0)) \<noteq> []"
      by simp
    with t' show False by simp
  qed
  with h' have n: "\<not> passed (run_test_case RDP_186 one_window 3)"
    by blast
  have c: "mqtt_connects ?B"
    by (simp add: quick_bench_def)
  with r obtain T where "run_all_tests ?B = Some T"
    and "(''RDP-186'', run_test_case RDP_186 (window_of ?B ''RDP-186'')
            (elapsed_time_of ?B ''RDP-186'')) \<in> set (test_results T)"
    by blast
  then have "(''RDP-186'', result_on ?B ''RDP-186'' RDP_186)
       \<in> set (test_results (run_tests ?B TEST_CASES no_totals))"
    by (simp add: run_all_tests_quick result_on_def)
  with m p n c show ?thesis by blast
qed

text \<open>
  C6, as stated, fails: the test RDP-187 takes 1.2 seconds, which is a fiftieth of a
  minute, and the worklog posted to its issue says \<open>1m\<close>.
\<close>

theorem worklog_not_elapsed_minutes:
  "run_all_tests (quick_bench accepting_tracker)
     = Some (run_tests (quick_bench accepting_tracker) TEST_CASES no_totals)
   \<and> (''RDP-187'',
       \<lparr>timeSpent = ''1m'', comment = ''Automated test passed via MQTT CLI interface'',
        started = ''2025-01-01T00:00:00.000+0000''\<rparr>)
      \<in> set (worklogs (effects (run_tests (quick_bench accepting_tracker) TEST_CASES no_totals)))
   \<and> elapsed_minutes (result_on (quick_bench accepting_tracker) ''RDP-187'' RDP_187) = 1 / 50"
proof -
  let ?B = "quick_bench accepting_tracker"
  have "worklogs (effects no_totals) = []"
    by (simp add: no_totals_def worklogs_def)
  then have "worklogs (effects (run_tests ?B TEST_CASES no_totals)) =
      map (\<lambda>(k, i). (k, worklog_data (clock ?B k) (passed (result_on ?B k i))
                           (max (elapsed_minutes (result_on ?B k i)) 1))) TEST_CASES"
    by (simp add: worklogs_run_tests)
  then have "(''RDP-187'', worklog_data (clock ?B ''RDP-187'')
       (passed (result_on ?B ''RDP-187'' RDP_187))
       (max (elapsed_minutes (result_on ?B ''RDP-187'' RDP_187)) 1))
      \<in> set (worklogs (effects (run_tests ?B TEST_CASES no_totals)))"
    by (simp add: in_image_TEST_CASES [OF RDP_187_TEST_CASES])
  then have "(''RDP-187'',
       \<lparr>timeSpent = ''1m'', comment = ''Automated test passed via MQTT CLI interface'',
        started = ''2025-01-01T00:00:00.000+0000''\<rparr>)
      \<in> set (worklogs (effects (run_tests ?B TEST_CASES no_totals)))"
    unfolding worklog_data_quick .
  moreover note run_all_tests_quick [of accepting_tracker] elapsed_quick [of accepting_tracker]
  ultimately show ?thesis
    by blast
qed

theorem worklog_time_spent_witness:
  "mqtt_connects (quick_bench accepting_tracker)
   \<and> (''RDP-187'', RDP_187) \<in> set TEST_CASES
   \<and> (''RDP-187'',
       \<lparr>timeSpent = ''1m'', comment = ''Automated test passed via MQTT CLI interface'',
        started = ''2025-01-01T00:00:00.000+0000''\<rparr>)
      \<in> set (worklogs (effects (run_tests (quick_bench accepting_tracker) TEST_CASES no_totals)))"
proof -
  let ?B = "quick_bench accepting_tracker"
  have c: "mqtt_connects ?B"
    by (simp add: quick_bench_def)
  have f: "max 1 \<lfloor>elapsed_time_of ?B ''RDP-187'' / 60\<rfloor> = 1"
    by (simp add: quick_bench_def map_of_RDP_187) (simp add: RDP_187_def)
  from worklog_time_spent [OF c RDP_187_TEST_CASES]
  have "(''RDP-187'',
       \<lparr>timeSpent = str_int (max 1 \<lfloor>elapsed_time_of ?B ''RDP-187'' / 60\<rfloor>) @ ''m'',
        comment = ''Automated test ''
          @ (if passed (result_on ?B ''RDP-187'' RDP_187) then ''passed'' else ''failed'')
          @ '' via MQTT CLI interface'',
        started = clock ?B ''RDP-187''\<rparr>)
      \<in> set (worklogs (effects (run_tests ?B TEST_CASES no_totals)))"
    by (simp add: run_all_tests_quick)
  then have "(''RDP-187'',
       \<lparr>timeSpent = ''1m'', comment = ''Automated test passed via MQTT CLI interface'',
        started = ''2025-01-01T00:00:00.000+0000''\<rparr>)
      \<in> set (worklogs (effects (run_tests ?B TEST_CASES no_totals)))"
    unfolding f by (simp add: passed_quick str_int_1) (simp add: quick_bench_def)
  with c RDP_187_TEST_CASES show ?thesis by blast
qed

text \<open>
  C7, as stated, fails: on a tracker that cannot be reached the worklog request raises,
  the \<open>except\<close> clause ends \<open>update_jira_task\<close>, and no transition is attempted for the
  test RDP-187 although it passed.
\<close>

theorem no_transition_when_worklog_raises:
  "run_all_tests (quick_bench unreachable_tracker)
     = Some (run_tests (quick_bench unreachable_tracker) TEST_CASES no_totals)
   \<and> passed (result_on (quick_bench unreachable_tracker) ''RDP-187'' RDP_187)
   \<and> Get_transitions ''RDP-187''
       \<notin> set (effects (run_tests (quick_bench unreachable_tracker) TEST_CASES no_totals))"
proof -
  have "post_worklog (tracker_of (quick_bench unreachable_tracker)) k w = Raises" for k w
    by (simp add: quick_bench_def unreachable_tracker_def)
  then have "Get_transitions ''RDP-187''
       \<notin> set (effects (run_tests (quick_bench unreachable_tracker) TEST_CASES no_totals))"
    by (simp add: get_transitions_run_tests no_totals_def)
  then show ?thesis
    by (simp add: run_all_tests_quick passed_quick)
qed

theorem done_transition_attempt_witness:
  "mqtt_connects (quick_bench accepting_tracker)
   \<and> (''RDP-187'', RDP_187) \<in> set TEST_CASES
   \<and> Get_transitions ''RDP-187''
       \<in> set (effects (run_tests (quick_bench accepting_tracker) TEST_CASES no_totals))
   \<and> Post_transition ''RDP-187'' ''31''
       \<in> set (effects (run_tests (quick_bench accepting_tracker) TEST_CASES no_totals))"
proof -
  let ?B = "quick_bench accepting_tracker"
  have c: "mqtt_connects ?B"
    by (simp add: quick_bench_def)
  have r: "post_worklog (tracker_of ?B) k w \<noteq> Raises" for k w
    by (simp add: quick_bench_def accepting_tracker_def)
  from done_transition_attempt [OF c RDP_187_TEST_CASES]
  have g: "Get_transitions ''RDP-187'' \<in> set (effects (run_tests ?B TEST_CASES no_totals))"
    by (simp add: run_all_tests_quick passed_quick r)
  have gt: "get_transitions (tracker_of ?B) ''RDP-187'' =
      Response 200 [\<lparr>transition_name = ''In Progress'', transition_id = ''21''\<rparr>,
            \<lparr>transition_name = ''Done'', transition_id = ''31''\<rparr>]"
    by (simp add: quick_bench_def accepting_tracker_def)
  have fd: "find_done [\<lparr>transition_name = ''In Progress'', transition_id = ''21''\<rparr>,
            \<lparr>transition_name = ''Done'', transition_id = ''31''\<rparr>] = Some ''31''"
    by code_simp
  have "Post_transition ''RDP-187'' ''31''
       \<in> set (effects (run_tests ?B TEST_CASES no_totals))"
  proof (rule post_transition_run_tests [THEN iffD2], rule disjI2,
      intro exI [of _ RDP_187] conjI)
    show "(''RDP-187'', RDP_187) \<in> set TEST_CASES"
      by (rule RDP_187_TEST_CASES)
    show "passed (result_on ?B ''RDP-187'' RDP_187)"
      by (rule passed_quick)
    show "post_worklog (tracker_of ?B) ''RDP-187''
        (worklog_data (clock ?B ''RDP-187'') True
          (max (elapsed_minutes (result_on ?B ''RDP-187'' RDP_187)) 1)) \<noteq> Raises"
      by (rule r)
    show "''31'' \<noteq> []"
      by simp
    show "\<exists>ts. get_transitions (tracker_of ?B) ''RDP-187'' = Response 200 ts
        \<and> find_done ts = Some ''31''"
      using gt fd by blast
  qed
  with c g RDP_187_TEST_CASES show ?thesis by blast
qed

section \<open>Failed requests to the issue tracker\<close>

lemma puts_simps:
  "puts [] = []"
  "puts (Search q # acts) = puts acts"
  "puts (Print l # acts) = puts acts"
  "puts (Put_estimate k x # acts) = (k, x) # puts acts"
  "puts (acts @ acts') = puts acts @ puts acts'"
  by (simp_all add: puts_def)

lemma refused_update_tasks:
  "(k, h) \<in> set (puts (fst (update_tasks J f ts n))) \<Longrightarrow> put_estimate J k h \<noteq> 204 \<Longrightarrow>
     Print (Estimate_failed k (put_estimate J k h)) \<in> set (fst (update_tasks J f ts n))"
  by (induction ts arbitrary: n) (auto simp: Let_def puts_simps)

lemma puts_update_test_tasks:
  "map fst (puts (update_test_tasks J)) =
     (if fst (search J jql_test) = 200 then map key (snd (search J jql_test)) else [])"
  by (simp add: update_test_tasks_def Let_def puts_simps puts_update_tasks comp_def)

lemma refused_update_test_tasks:
  assumes "(k, h) \<in> set (puts (update_test_tasks J))" and "put_estimate J k h \<noteq> 204"
  shows "Print (Estimate_failed k (put_estimate J k h)) \<in> set (update_test_tasks J)"
proof (cases "fst (search J jql_test) = 200")
  case True
  let ?u = "update_tasks J
      (\<lambda>t. if 0 < length (snd (search J jql_test))
           then py_round1 (20 / of_nat (length (snd (search J jql_test)))) else 0)
      (snd (search J jql_test)) 0"
  from True have u: "update_test_tasks J =
      Search jql_test # fst ?u @ [Print (Updated_count (snd ?u) (length (snd (search J jql_test))))]"
    by (simp add: update_test_tasks_def Let_def)
  with assms(1) have "(k, h) \<in> set (puts (fst ?u))"
    by (simp add: puts_simps)
  then have "Print (Estimate_failed k (put_estimate J k h)) \<in> set (fst ?u)"
    using assms(2) by (rule refused_update_tasks)
  then show ?thesis
    unfolding u by simp
next
  case False
  with assms(1) show ?thesis
    by (simp add: update_test_tasks_def Let_def puts_simps)
qed

lemma update_time_estimates_ok:
  assumes "fst (search J jql_todo) = 200"
  shows "update_time_estimates J =
     (Search jql_todo
        # fst (update_tasks J
                 (determine_hours (hour_allocations (categorize (snd (search J jql_todo)))))
                 (snd (search J jql_todo)) 0)
        @ [Print (Updated_count
             (snd (update_tasks J
                 (determine_hours (hour_allocations (categorize (snd (search J jql_todo)))))
                 (snd (search J jql_todo)) 0))
             (length (snd (search J jql_todo))))]
        @ update_test_tasks J @ [Print Update_complete],
      Completed)"
  using assms by (simp add: update_time_estimates_def Let_def)

lemma update_time_estimates_exit:
  assumes "fst (search J jql_todo) \<noteq> 200"
  shows "update_time_estimates J =
     ([Search jql_todo, Print (Error_fetching_tasks (fst (search J jql_todo)))], Exited 1)"
  using assms by (simp add: update_time_estimates_def Let_def)

lemma refused_update_time_estimates:
  assumes "fst (search J jql_todo) = 200"
    and "(k, h) \<in> set (puts (fst (update_time_estimates J)))" and "put_estimate J k h \<noteq> 204"
  shows "Print (Estimate_failed k (put_estimate J k h)) \<in> set (fst (update_time_estimates J))"
proof -
  let ?u = "update_tasks J
      (determine_hours (hour_allocations (categorize (snd (search J jql_todo)))))
      (snd (search J jql_todo)) 0"
  note u = update_time_estimates_ok [OF assms(1)]
  from assms(2) have "(k, h) \<in> set (puts (fst ?u)) \<or> (k, h) \<in> set (puts (update_test_tasks J))"
    by (simp add: u puts_simps)
  then have "Print (Estimate_failed k (put_estimate J k h)) \<in> set (fst ?u)
      \<or> Print (Estimate_failed k (put_estimate J k h)) \<in> set (update_test_tasks J)"
    using assms(3) by (blast intro: refused_update_tasks refused_update_test_tasks)
  then show ?thesis
    by (auto simp: u)
qed

lemma update_jira_task_failed_log:
  assumes "post_worklog T test_id (worklog_data now ok m) = Response s u"
    and "s \<noteq> 200" and "s \<noteq> 201"
  shows "update_jira_task T now test_id ok m =
     Post_worklog test_id (worklog_data now ok m) # Printed (Failed_to_log s)
       # (if ok then move_to_done T test_id else [])"
  using assms by (simp add: update_jira_task_def)

lemma move_to_done_failed_post:
  assumes "get_transitions T test_id = Response 200 ts" and "find_done ts = Some x" and "x \<noteq> []"
    and "post_transition T test_id x = Response s u" and "s \<noteq> 204"
  shows "move_to_done T test_id =
     [Get_transitions test_id, Post_transition test_id x, Printed (Failed_to_transition s)]"
  using assms by (simp add: move_to_done_def)

text \<open>
  C4, as amended. A failed search for the To Do sub-tasks prints the status and ends the
  time-estimate updater with exit code 1. When that search succeeds the updater runs to
  its end whatever the other requests return: an estimate is written for every task
  found, To Do tasks and test tasks alike, and every estimate that is refused has its
  status printed. In the test runner a failed worklog request prints its status and the
  transition steps follow, a failed transition request prints its status, and a worklog
  is posted for every test case whatever the tracker answers.
\<close>

theorem http_failure_policy:
  "(fst (search J jql_todo) \<noteq> 200 \<longrightarrow>
      update_time_estimates J =
        ([Search jql_todo, Print (Error_fetching_tasks (fst (search J jql_todo)))], Exited 1))
   \<and> (fst (search J jql_todo) = 200 \<longrightarrow>
        snd (update_time_estimates J) = Completed
        \<and> last (fst (update_time_estimates J)) = Print Update_complete
        \<and> map fst (puts (fst (update_time_estimates J))) =
            map key (snd (search J jql_todo))
            @ (if fst (search J jql_test) = 200 then map key (snd (search J jql_test)) else [])
        \<and> (\<forall>k h. (k, h) \<in> set (puts (fst (update_time_estimates J)))
              \<and> put_estimate J k h \<noteq> 204 \<longrightarrow>
              Print (Estimate_failed k (put_estimate J k h))
                \<in> set (fst (update_time_estimates J))))
   \<and> (post_worklog T test_id (worklog_data now ok m) = Response s u \<and> s \<noteq> 200 \<and> s \<noteq> 201 \<longrightarrow>
        update_jira_task T now test_id ok m =
          Post_worklog test_id (worklog_data now ok m) # Printed (Failed_to_log s)
            # (if ok then move_to_done T test_id else []))
   \<and> (get_transitions T test_id = Response 200 ts \<and> find_done ts = Some x \<and> x \<noteq> []
        \<and> post_transition T test_id x = Response s u \<and> s \<noteq> 204 \<longrightarrow>
        move_to_done T test_id =
          [Get_transitions test_id, Post_transition test_id x, Printed (Failed_to_transition s)])
   \<and> (mqtt_connects B \<longrightarrow>
        (\<exists>R. run_all_tests B = Some R \<and> map fst (worklogs (effects R)) = map fst TEST_CASES))"
proof (intro conjI impI)
  assume "fst (search J jql_todo) \<noteq> 200"
  then show "update_time_estimates J =
        ([Search jql_todo, Print (Error_fetching_tasks (fst (search J jql_todo)))], Exited 1)"
    by (rule update_time_estimates_exit)
next
  assume a: "fst (search J jql_todo) = 200"
  note u = update_time_estimates_ok [OF a]
  show "snd (update_time_estimates J) = Completed"
    by (simp add: u)
  show "last (fst (update_time_estimates J)) = Print Update_complete"
    by (simp add: u)
  show "map fst (puts (fst (update_time_estimates J))) =
            map key (snd (search J jql_todo))
            @ (if fst (search J jql_test) = 200 then map key (snd (search J jql_test)) else [])"
    by (simp add: u puts_simps puts_update_tasks puts_update_test_tasks comp_def)
  show "\<forall>k h. (k, h) \<in> set (puts (fst (update_time_estimates J)))
              \<and> put_estimate J k h \<noteq> 204 \<longrightarrow>
              Print (Estimate_failed k (put_estimate J k h))
                \<in> set (fst (update_time_estimates J))"
    using refused_update_time_estimates [OF a] by blast
next
  assume "post_worklog T test_id (worklog_data now ok m) = Response s u \<and> s \<noteq> 200 \<and> s \<noteq> 201"
  then show "update_jira_task T now test_id ok m =
          Post_worklog test_id (worklog_data now ok m) # Printed (Failed_to_log s)
            # (if ok then move_to_done T test_id else [])"
    by (simp add: update_jira_task_failed_log)
next
  assume "get_transitions T test_id = Response 200 ts \<and> find_done ts = Some x \<and> x \<noteq> []
        \<and> post_transition T test_id x = Response s u \<and> s \<noteq> 204"
  then show "move_to_done T test_id =
          [Get_transitions test_id, Post_transition test_id x, Printed (Failed_to_transition s)]"
    by (simp add: move_to_done_failed_post)
next
  assume c: "mqtt_connects B"
  have "worklogs (effects no_totals) = []"
    by (simp add: no_totals_def worklogs_def)
  then have "map fst (worklogs (effects (run_tests B TEST_CASES no_totals))) = map fst TEST_CASES"
    by (simp add: worklogs_run_tests comp_def case_prod_unfold)
  with c show "\<exists>R. run_all_tests B = Some R \<and> map fst (worklogs (effects R)) = map fst TEST_CASES"
    by (simp add: run_all_tests_def)
qed

text \<open>
  C4, as stated, fails: when the search for the To Do sub-tasks returns status 500 the
  time-estimate updater prints the status and exits with code 1.
\<close>

theorem todo_search_failure_exits:
  "fst (search jira_search_fails jql_todo) = 500
   \<and> update_time_estimates jira_search_fails =
       ([Search jql_todo, Print (Error_fetching_tasks 500)], Exited 1)"
  by (simp add: update_time_estimates_def jira_search_fails_def)

lemma jql_test_neq: "jql_test \<noteq> jql_todo"
  by (simp add: jql_test_def jql_todo_def)

theorem http_failure_policy_witness:
  "fst (search jira_search_fails jql_todo) \<noteq> 200
   \<and> snd (update_time_estimates jira_search_fails) = Exited 1
   \<and> fst (search jira_rejects_estimates jql_todo) = 200
   \<and> snd (update_time_estimates jira_rejects_estimates) = Completed
   \<and> map fst (puts (fst (update_time_estimates jira_rejects_estimates)))
       = [''RDP-1'', ''RDP-2'', ''RDP-3'', ''RDP-4'', ''RDP-8'', ''RDP-9'']
   \<and> Print (Estimate_failed ''RDP-1'' 403)
       \<in> set (fst (update_time_estimates jira_rejects_estimates))
   \<and> Print (Estimate_failed ''RDP-9'' 403)
       \<in> set (fst (update_time_estimates jira_rejects_estimates))
   \<and> fst (search jira_test_search_fails jql_todo) = 200
   \<and> fst (search jira_test_search_fails jql_test) = 500
   \<and> snd (update_time_estimates jira_test_search_fails) = Completed
   \<and> update_jira_task failing_tracker ''2025-01-01T00:00:00.000+0000'' ''RDP-187'' True 1 =
       Post_worklog ''RDP-187'' (worklog_data ''2025-01-01T00:00:00.000+0000'' True 1)
         # Printed (Failed_to_log 500) # move_to_done failing_tracker ''RDP-187''
   \<and> move_to_done refusing_tracker ''RDP-187'' =
       [Get_transitions ''RDP-187'', Post_transition ''RDP-187'' ''31'',
        Printed (Failed_to_transition 409)]
   \<and> mqtt_connects (quick_bench failing_tracker)
   \<and> map fst (worklogs (effects (run_tests (quick_bench failing_tracker) TEST_CASES no_totals)))
       = map fst TEST_CASES"
proof -
  let ?J = jira_rejects_estimates
  let ?acts = "fst (update_time_estimates ?J)"
  let ?now = "''2025-01-01T00:00:00.000+0000''"
  let ?B = "quick_bench failing_tracker"
  note h = http_failure_policy [where J = ?J and T = failing_tracker and test_id = "''RDP-187''"
      and now = ?now and ok = True and m = 1 and s = 500 and u = "()" and B = ?B]
  note h' = http_failure_policy [where J = jira_search_fails and T = refusing_tracker
      and test_id = "''RDP-187''" and s = 409 and u = "()" and x = "''31''"
      and ts = "[\<lparr>transition_name = ''Done'', transition_id = ''31''\<rparr>]"]
  note h'' = http_failure_policy [where J = jira_test_search_fails]
  have f: "fst (search jira_search_fails jql_todo) \<noteq> 200"
    by (simp add: jira_search_fails_def)
  with h' have "update_time_estimates jira_search_fails =
      ([Search jql_todo, Print (Error_fetching_tasks (fst (search jira_search_fails jql_todo)))],
       Exited 1)"
    by blast
  then have e: "snd (update_time_estimates jira_search_fails) = Exited 1"
    by simp
  have a: "fst (search ?J jql_todo) = 200" and ts: "snd (search ?J jql_todo) = four_tasks"
    by (simp_all add: jira_rejects_estimates_def)
  have b: "fst (search ?J jql_test) = 200" and tt: "snd (search ?J jql_test) = two_test_tasks"
    by (simp_all add: jira_rejects_estimates_def jql_test_neq)
  have p: "put_estimate ?J k x = 403" for k x
    by (simp add: jira_rejects_estimates_def)
  from h a have c: "snd (update_time_estimates ?J) = Completed"
    by blast
  from h a have "map fst (puts ?acts) =
      map key (snd (search ?J jql_todo))
      @ (if fst (search ?J jql_test) = 200 then map key (snd (search ?J jql_test)) else [])"
    by blast
  then have q: "map fst (puts ?acts) = [''RDP-1'', ''RDP-2'', ''RDP-3'', ''RDP-4'', ''RDP-8'', ''RDP-9'']"
    by (simp add: ts tt b) (simp add: four_tasks_def two_test_tasks_def)
  from h a have r: "\<forall>k h. (k, h) \<in> set (puts ?acts) \<and> put_estimate ?J k h \<noteq> 204 \<longrightarrow>
      Print (Estimate_failed k (put_estimate ?J k h)) \<in> set ?acts"
    by blast
  have "''RDP-1'' \<in> set (map fst (puts ?acts))" and "''RDP-9'' \<in> set (map fst (puts ?acts))"
    unfolding q by simp_all
  then obtain h1 h9 where "(''RDP-1'', h1) \<in> set (puts ?acts)" and "(''RDP-9'', h9) \<in> set (puts ?acts)"
    by auto
  with r [unfolded p] have r1: "Print (Estimate_failed ''RDP-1'' 403) \<in> set ?acts"
    and r9: "Print (Estimate_failed ''RDP-9'' 403) \<in> set ?acts"
    by auto
  have a'': "fst (search jira_test_search_fails jql_todo) = 200"
    and b'': "fst (search jira_test_search_fails jql_test) = 500"
    by (simp_all add: jira_test_search_fails_def jql_test_neq)
  from h'' a'' have c'': "snd (update_time_estimates jira_test_search_fails) = Completed"
    by blast
  have "post_worklog failing_tracker ''RDP-187'' (worklog_data ?now True 1)
      = Response 500 ()"
    by (simp add: failing_tracker_def)
  with h have "update_jira_task failing_tracker ?now ''RDP-187'' True 1 =
      Post_worklog ''RDP-187'' (worklog_data ?now True 1) # Printed (Failed_to_log 500)
        # (if True then move_to_done failing_tracker ''RDP-187'' else [])"
    by simp
  then have w: "update_jira_task failing_tracker ?now ''RDP-187'' True 1 =
       Post_worklog ''RDP-187'' (worklog_data ?now True 1)
         # Printed (Failed_to_log 500) # move_to_done failing_tracker ''RDP-187''"
    by simp
  have "get_transitions refusing_tracker ''RDP-187''
      = Response 200 [\<lparr>transition_name = ''Done'', transition_id = ''31''\<rparr>]"
    and "post_transition refusing_tracker ''RDP-187'' ''31'' = Response 409 ()"
    by (simp_all add: refusing_tracker_def)
  moreover have "find_done [\<lparr>transition_name = ''Done'', transition_id = ''31''\<rparr>] = Some ''31''"
    by code_simp
  ultimately have d: "move_to_done refusing_tracker ''RDP-187'' =
       [Get_transitions ''RDP-187'', Post_transition ''RDP-187'' ''31'',
        Printed (Failed_to_transition 409)]"
    using h' by simp
  have o: "mqtt_connects ?B"
    by (simp add: quick_bench_def)
  with h obtain R where "run_all_tests ?B = Some R"
    and "map fst (worklogs (effects R)) = map fst TEST_CASES"
    by blast
  then have v: "map fst (worklogs (effects (run_tests ?B TEST_CASES no_totals)))
       = map fst TEST_CASES"
    by (simp add: run_all_tests_quick)
  from f e a c q r1 r9 a'' b'' c'' w d o v show ?thesis
    by blast
qed

section \<open>Properties of the MQTT test client\<close>

lemma hex_digit_code: "d < 16 \<Longrightarrow> (of_char (hex_digit d) :: nat) = (if d < 10 then 48 + d else 87 + d)"
  by (simp add: hex_digit_def)

lemma hex_digit_inj: "a < 16 \<Longrightarrow> b < 16 \<Longrightarrow> hex_digit a = hex_digit b \<Longrightarrow> a = b"
proof -
  assume a: "a < 16" and b: "b < 16" and e: "hex_digit a = hex_digit b"
  from e have "(of_char (hex_digit a) :: nat) = of_char (hex_digit b)" by simp
  with a b show "a = b" by (simp add: hex_digit_code split: if_splits)
qed

lemma esc_cases:
  "json_escape_char c = [c] \<and> c \<noteq> CHR 0x5C
   \<or> (\<exists>x. json_escape_char c = [CHR 0x5C, x] \<and> x \<noteq> CHR ''u'')
   \<or> json_escape_char c = [CHR 0x5C, CHR ''u'', CHR ''0'', CHR ''0'',
        hex_digit (of_char c div 16), hex_digit (of_char c mod 16)]"
  by (auto simp: json_escape_char_def Let_def)

lemma of_char_nat_inj: "(of_char a :: nat) = of_char b \<Longrightarrow> a = b"
  by simp

lemma of_char_div_16: "(of_char c :: nat) div 16 < 16"
  by (rule less_mult_imp_div_less) simp

lemma of_char_nat_both: "(of_char a :: nat) = n \<Longrightarrow> of_char b = n \<Longrightarrow> a = b"
  by (rule of_char_nat_inj) simp

lemma json_escape_char_inj:
  assumes "json_escape_char a = json_escape_char b"
  shows "a = b"
proof (cases "json_escape_char a = [CHR 0x5C, CHR ''u'', CHR ''0'', CHR ''0'',
        hex_digit (of_char a div 16), hex_digit (of_char a mod 16)]")
  case True
  let ?n = "of_char a :: nat" and ?m = "of_char b :: nat"
  from True assms have u: "json_escape_char b = [CHR 0x5C, CHR ''u'', CHR ''0'', CHR ''0'',
        hex_digit (?n div 16), hex_digit (?n mod 16)]"
    by simp
  then have "json_escape_char b = [CHR 0x5C, CHR ''u'', CHR ''0'', CHR ''0'',
        hex_digit (?m div 16), hex_digit (?m mod 16)]"
    using esc_cases [of b] by auto
  with u have "hex_digit (?n div 16) = hex_digit (?m div 16)"
    and "hex_digit (?n mod 16) = hex_digit (?m mod 16)"
    by simp_all
  then have "?n div 16 = ?m div 16" and "?n mod 16 = ?m mod 16"
    by (simp_all add: hex_digit_inj of_char_div_16)
  then have "?n = ?m"
    by (metis div_mult_mod_eq)
  then show ?thesis by (rule of_char_nat_inj)
next
  case False
  with assms show ?thesis
    by (auto simp: json_escape_char_def Let_def split: if_splits elim: of_char_nat_both)
qed

lemma json_escape_char_prefix:
  assumes "json_escape_char a @ xs = json_escape_char b @ ys"
  shows "a = b \<and> xs = ys"
proof -
  have "json_escape_char a = json_escape_char b"
    using assms esc_cases [of a] esc_cases [of b] by auto
  with assms show ?thesis
    by (simp add: json_escape_char_inj)
qed

lemma json_escape_char_not_Nil: "json_escape_char c \<noteq> []"
  using esc_cases [of c] by auto

lemma concat_escape_inj:
  "concat (map json_escape_char s) = concat (map json_escape_char t) \<Longrightarrow> s = t"
proof (induction s arbitrary: t)
  case Nil
  then show ?case
    by (cases t) (simp_all add: json_escape_char_not_Nil)
next
  case (Cons a s)
  show ?case
  proof (cases t)
    case Nil
    with Cons.prems show ?thesis
      by (simp add: json_escape_char_not_Nil)
  next
    case (Cons b t')
    with Cons.prems have "json_escape_char a @ concat (map json_escape_char s)
        = json_escape_char b @ concat (map json_escape_char t')"
      by simp
    then have "a = b" and "concat (map json_escape_char s) = concat (map json_escape_char t')"
      by (simp_all add: json_escape_char_prefix)
    with Cons.IH Cons show ?thesis by simp
  qed
qed

lemma json_string_inj: "json_string s = json_string t \<longleftrightarrow> s = t"
  by (auto simp: json_string_def dest: concat_escape_inj)

lemma json_items_snoc:
  "d \<noteq> [] \<Longrightarrow>
     json_items (d @ [(k, v)]) = json_items d @ '', '' @ json_string k @ '': '' @ json_value v"
  by (induction d rule: json_items.induct) simp_all

lemma json_dumps_timestamp:
  "d \<noteq> [] \<Longrightarrow> json_dumps (d @ [(''timestamp'', JString t)]) = fixed_part d @ json_string t @ ''}''"
  by (simp add: json_dumps_def fixed_part_def json_items_snoc)

lemma dict_set_messages:
  "dict_set heartbeat_msg ''timestamp'' v = heartbeat_msg @ [(''timestamp'', v)]"
  "dict_set status_msg ''timestamp'' v = status_msg @ [(''timestamp'', v)]"
  by (simp_all add: heartbeat_msg_def status_msg_def)

lemma messages_not_Nil: "heartbeat_msg \<noteq> []" "status_msg \<noteq> []"
  by (simp_all add: heartbeat_msg_def status_msg_def)

lemma topics_differ: "TOPIC_HEARTBEAT \<noteq> TOPIC_STATUS" "TOPIC_STATUS \<noteq> TOPIC_HEARTBEAT"
  by (simp_all add: TOPIC_HEARTBEAT_def TOPIC_STATUS_def)

lemma main_calls:
  "main S =
     (if connects S then
        (if connected_at S 0
           then [(TOPIC_HEARTBEAT, fixed_part heartbeat_msg @ json_string (now_at S 0) @ ''}'')]
         else [])
        @ (if connected_at S 1
             then [(TOPIC_STATUS, fixed_part status_msg @ json_string (now_at S 1) @ ''}'')]
           else [])
      else [])"
  by (simp add: main_def publish_test_message_def Let_def dict_set_messages
        json_dumps_timestamp messages_not_Nil)

text \<open>
  C8, as amended. A run that is connected publishes one payload to the heartbeat topic
  and one to the status topic. Each payload is a text that is the same in every run, the
  items of the message and the key \<open>timestamp\<close>, followed by the clock reading of the
  call as a JSON string. Two such payloads are equal exactly when the two clock readings
  are equal.
\<close>

theorem payload_fixed_up_to_timestamp:
  "published_to TOPIC_HEARTBEAT (main S) =
     (if connects S \<and> connected_at S 0
        then [fixed_part heartbeat_msg @ json_string (now_at S 0) @ ''}''] else [])
   \<and> published_to TOPIC_STATUS (main S) =
       (if connects S \<and> connected_at S 1
          then [fixed_part status_msg @ json_string (now_at S 1) @ ''}''] else [])
   \<and> (fixed_part d @ json_string t @ ''}'' = fixed_part d @ json_string t' @ ''}''
        \<longleftrightarrow> t = t')"
  by (simp add: main_calls published_to_def topics_differ json_string_inj)

lemma published_session_at:
  "published_to TOPIC_HEARTBEAT (main (session_at t0 t1))
     = [fixed_part heartbeat_msg @ json_string t0 @ ''}'']"
  "published_to TOPIC_STATUS (main (session_at t0 t1))
     = [fixed_part status_msg @ json_string t1 @ ''}'']"
  by (simp_all add: main_calls published_to_def topics_differ session_at_def)

text \<open>
  C8, as stated, fails: a run in the morning and a run in the evening publish different
  payloads to the heartbeat topic, and different payloads to the status topic.
\<close>

theorem payloads_differ_between_runs:
  "published_to TOPIC_HEARTBEAT (main morning_run) \<noteq> published_to TOPIC_HEARTBEAT (main evening_run)
   \<and> published_to TOPIC_STATUS (main morning_run) \<noteq> published_to TOPIC_STATUS (main evening_run)"
  by (simp add: morning_run_def evening_run_def published_session_at json_string_inj)

theorem payload_fixed_up_to_timestamp_witness:
  "connects morning_run \<and> connected_at morning_run 0
   \<and> published_to TOPIC_HEARTBEAT (main morning_run) =
       [fixed_part heartbeat_msg @ json_string ''2025-01-01T09:00:00.000123'' @ ''}'']
   \<and> published_to TOPIC_STATUS (main morning_run) =
       [fixed_part status_msg @ json_string ''2025-01-01T09:00:01.001456'' @ ''}'']"
proof -
  have c: "connects morning_run" "connected_at morning_run 0" "connected_at morning_run 1"
    by (simp_all add: morning_run_def session_at_def)
  have n: "now_at morning_run 0 = ''2025-01-01T09:00:00.000123''"
    "now_at morning_run 1 = ''2025-01-01T09:00:01.001456''"
    by (simp_all add: morning_run_def session_at_def)
  from payload_fixed_up_to_timestamp [of morning_run] c
  have "published_to TOPIC_HEARTBEAT (main morning_run) =
      [fixed_part heartbeat_msg @ json_string (now_at morning_run 0) @ ''}'']"
    and "published_to TOPIC_STATUS (main morning_run) =
      [fixed_part status_msg @ json_string (now_at morning_run 1) @ ''}'']"
    by simp_all
  with c show ?thesis
    unfolding n by blast
qed

end
